theory Spec2Isabelle
  imports Main
begin

section \<open>Values, failures and the external capabilities\<close>

text \<open>
  Python text is modelled as \<^typ>\<open>string\<close>, read as a sequence of code points below 256.
  A Python value that can sit in the \<open>ast\<close> slot, in an intermediate-results dictionary or
  in a chat-history entry is a \<open>pyval\<close>: what \<open>json.loads\<close> can return, which is also
  enough for the dictionaries the program builds itself. A dictionary is an association
  list in insertion order. A float is identified by its \<open>repr\<close>.
\<close>

datatype pyval =
    PNone
  | PBool bool
  | PInt int
  | PFloat string
  | PStr string
  | PList "pyval list"
  | PDict "(string \<times> pyval) list"

text \<open>A raised exception: \<open>Exception m\<close> is any exception whose \<open>str(e)\<close> is \<open>m\<close>.\<close>

datatype exn = Exception string

fun str :: "exn \<Rightarrow> string" where
  "str (Exception m) = m"

text \<open>
  The three system prompts are fixed string constants of the source
  (\<open>parse_sql_to_ast\<close>, \<open>translate_ast_to_ansi\<close>, \<open>validate_ansi_sql\<close>); each is passed
  unchanged as the \<open>system\<close> message, and the model names them instead of spelling them out.
\<close>

datatype prompt = ParserPrompt | TranslatorPrompt | ValidatorPrompt

text \<open>
  What the program calls but does not define: \<open>llm.invoke\<close> (system prompt and user
  message in, \<open>response.content\<close> out, or an exception), \<open>json.loads\<close> (a value, or an
  exception) and \<open>json.dumps(_, indent=2)\<close> (text, or an exception: a value nested too
  deeply exhausts the recursion limit of the encoder).
\<close>

record env =
  llm_invoke :: "prompt \<Rightarrow> string \<Rightarrow> exn + string"
  json_loads :: "string \<Rightarrow> exn + pyval"
  json_dumps :: "pyval \<Rightarrow> exn + string"

subsection \<open>Text operations\<close>

abbreviation newline :: char where
  "newline \<equiv> CHR 0x0A"

text \<open>
  \<open>str.isspace\<close> on code points below 256: TAB, LF, VT, FF, CR, the four separators
  0x1C to 0x1F, SPACE, NEL (0x85) and NBSP (0xA0). \<open>str.strip()\<close> removes such
  characters from both ends.
\<close>

definition isspace :: "char \<Rightarrow> bool" where
  "isspace c = (of_char c \<in> set [9, 10, 11, 12, 13, 28, 29, 30, 31, 32, 133, 160 :: nat])"

definition strip :: "string \<Rightarrow> string" where
  "strip s = rev (dropWhile isspace (rev (dropWhile isspace s)))"

text \<open>\<open>sub in s\<close> for strings: \<open>sub\<close> occurs somewhere in \<open>s\<close> as a contiguous block.\<close>

fun str_in :: "string \<Rightarrow> string \<Rightarrow> bool" where
  "str_in sub [] = (sub = [])"
| "str_in sub (c # cs) = (take (length sub) (c # cs) = sub \<or> str_in sub cs)"

section \<open>The conversion state and the three agents\<close>

record ConverterState =
  input_query :: string
  ast :: pyval
  final_sql :: string

text \<open>
  A node returns a dictionary holding the keys it sets; the graph merges it into the state,
  the last value of a key winning. One \<open>write\<close> is one key of such a dictionary.
\<close>

datatype "write" = Set_input_query string | Set_ast pyval | Set_final_sql string

fun apply_write :: "write \<Rightarrow> ConverterState \<Rightarrow> ConverterState" where
  "apply_write (Set_input_query q) s = s\<lparr>input_query := q\<rparr>"
| "apply_write (Set_ast a) s = s\<lparr>ast := a\<rparr>"
| "apply_write (Set_final_sql t) s = s\<lparr>final_sql := t\<rparr>"

definition apply_update :: "write list \<Rightarrow> ConverterState \<Rightarrow> ConverterState" where
  "apply_update ws s = fold apply_write ws s"

definition parse_sql_to_ast :: "env \<Rightarrow> ConverterState \<Rightarrow> exn + write list" where
  "parse_sql_to_ast E state =
     (let query = input_query state;
          user_message = ''SQL to parse:'' @ [newline] @ query
      in case llm_invoke E ParserPrompt user_message of
           Inl e \<Rightarrow> Inl e
         | Inr content \<Rightarrow>
             (let ast_data =
                    (case json_loads E content of
                       Inr v \<Rightarrow> v
                     | Inl e \<Rightarrow> PDict [(''error'', PStr (str e)), (''raw_response'', PStr content)])
              in Inr [Set_ast ast_data]))"

definition translate_ast_to_ansi :: "env \<Rightarrow> ConverterState \<Rightarrow> exn + write list" where
  "translate_ast_to_ansi E state =
     (let ast_data = ast state;
          original_sql = input_query state
      in case json_dumps E ast_data of
           Inl e \<Rightarrow> Inl e
         | Inr dumped \<Rightarrow>
             (let user_message =
                    ''Original Snowflake SQL:'' @ [newline] @ original_sql @ [newline, newline]
                    @ ''AST:'' @ [newline] @ dumped
              in case llm_invoke E TranslatorPrompt user_message of
                   Inl e \<Rightarrow> Inl e
                 | Inr content \<Rightarrow>
                     (let ansi_sql = strip content in Inr [Set_final_sql ansi_sql])))"

definition validate_ansi_sql :: "env \<Rightarrow> ConverterState \<Rightarrow> exn + write list" where
  "validate_ansi_sql E state =
     (let candidate_sql = final_sql state;
          original_sql = input_query state;
          user_message =
            ''Original Snowflake SQL:'' @ [newline] @ original_sql @ [newline, newline]
            @ ''ANSI SQL:'' @ [newline] @ candidate_sql
      in case llm_invoke E ValidatorPrompt user_message of
           Inl e \<Rightarrow> Inl e
         | Inr content \<Rightarrow> (let validated_sql = strip content in Inr [Set_final_sql validated_sql]))"

section \<open>The workflow graph\<close>

datatype node = START | ParserAgent | TranslationAgent | SyntaxValidatorAgent | END

text \<open>
  \<open>set_entry_point\<close> is the edge out of \<open>START\<close>; the other three are the \<open>add_edge\<close>
  calls, in the order of the source.
\<close>

definition edges :: "(node \<times> node) list" where
  "edges =
     [(START, ParserAgent),
      (ParserAgent, TranslationAgent),
      (TranslationAgent, SyntaxValidatorAgent),
      (SyntaxValidatorAgent, END)]"

text \<open>The function registered for a node by \<open>add_node\<close>; \<open>START\<close> and \<open>END\<close> run nothing.\<close>

fun node_action :: "env \<Rightarrow> node \<Rightarrow> ConverterState \<Rightarrow> exn + write list" where
  "node_action E START s = Inr []"
| "node_action E ParserAgent s = parse_sql_to_ast E s"
| "node_action E TranslationAgent s = translate_ast_to_ansi E s"
| "node_action E SyntaxValidatorAgent s = validate_ansi_sql E s"
| "node_action E END s = Inr []"

fun rank :: "node \<Rightarrow> nat" where
  "rank START = 4"
| "rank ParserAgent = 3"
| "rank TranslationAgent = 2"
| "rank SyntaxValidatorAgent = 1"
| "rank END = 0"

text \<open>
  Running the compiled graph from a node: run the node's function, merge what it returns,
  follow the node's edge, until \<open>END\<close>. An exception raised by a node ends the run. Next to
  the state the run keeps the list of updates made so far, one entry per node run (what the
  graph reports when it is streamed in update mode).
\<close>

function run_from ::
  "env \<Rightarrow> node \<Rightarrow> ConverterState \<Rightarrow> (node \<times> write list) list
     \<Rightarrow> exn + ConverterState \<times> (node \<times> write list) list" where
  "run_from E n s log =
     (if n = END then Inr (s, log)
      else case node_action E n s of
             Inl e \<Rightarrow> Inl e
           | Inr ws \<Rightarrow>
               (case map_of edges n of
                  None \<Rightarrow> Inr (apply_update ws s, log @ [(n, ws)])
                | Some n' \<Rightarrow> run_from E n' (apply_update ws s) (log @ [(n, ws)])))"
  by pat_completeness auto
termination
  by (relation "measure (\<lambda>(E, n, s, log). rank n)")
     (auto simp: edges_def split: if_splits)

text \<open>
  \<open>app.invoke\<close> returns the final state. The entry point builds the initial state (its
  extra key \<open>messages\<close> is not part of the state type and no agent reads it), runs the
  graph and returns \<open>final_sql\<close> with a dictionary of one key, \<open>AST\<close>. The state holds the
  key \<open>ast\<close> from the start, so the default of \<open>final_state.get("ast", {})\<close> is never taken.
\<close>

definition app_invoke :: "env \<Rightarrow> ConverterState \<Rightarrow> exn + ConverterState" where
  "app_invoke E initial_state =
     (case run_from E START initial_state [] of
        Inl e \<Rightarrow> Inl e
      | Inr (final_state, log) \<Rightarrow> Inr final_state)"

definition convert_snowflake_to_ansi ::
  "env \<Rightarrow> string \<Rightarrow> exn + string \<times> (string \<times> pyval) list" where
  "convert_snowflake_to_ansi E sql_query =
     (let initial_state = \<lparr>input_query = sql_query, ast = PNone, final_sql = ''''\<rparr>
      in case app_invoke E initial_state of
           Inl e \<Rightarrow> Inl e
         | Inr final_state \<Rightarrow>
             (let intermediate_results = [(''AST'', ast final_state)]
              in Inr (final_sql final_state, intermediate_results)))"

section \<open>The chat history and what is shown\<close>

text \<open>
  A history entry is the dictionary \<open>chat_entry\<close>; the history is the list kept in the
  session state. What Streamlit draws is recorded as a list of chat messages, each a role
  and the widgets drawn inside it.
\<close>

type_synonym chat = "(string \<times> pyval) list"

datatype widget =
    St_text pyval
  | St_error pyval
  | St_code pyval
  | St_subheader string
  | St_json pyval
  | St_expander string "widget list"

datatype message = Chat_message string "widget list"

text \<open>Truth value of a Python value, as \<open>if v:\<close> takes it.\<close>

fun truthy :: "pyval \<Rightarrow> bool" where
  "truthy PNone = False"
| "truthy (PBool b) = b"
| "truthy (PInt i) = (i \<noteq> 0)"
| "truthy (PFloat r) = (r \<noteq> ''0.0'' \<and> r \<noteq> ''-0.0'')"
| "truthy (PStr t) = (t \<noteq> [])"
| "truthy (PList vs) = (vs \<noteq> [])"
| "truthy (PDict kvs) = (kvs \<noteq> [])"

text \<open>The body of the loops over the intermediate results: only the key \<open>AST\<close> is drawn.\<close>

fun step_widgets :: "string \<times> pyval \<Rightarrow> widget list" where
  "step_widgets (step_name, step_result) =
     (if step_name = ''AST'' then [St_subheader ''AST Tree'', St_json step_result] else [])"

text \<open>
  Replaying one stored entry. \<open>None\<close> stands for an exception (a missing key, or
  \<open>.items()\<close> on a value that is not a dictionary). Whether the answer is drawn as an
  error is decided from the stored answer alone.
\<close>

definition answer_widget :: "chat \<Rightarrow> widget option" where
  "answer_widget chat =
     (case map_of chat ''answer'' of
        None \<Rightarrow> None
      | Some answer \<Rightarrow>
          Some (if (case answer of PStr a \<Rightarrow> str_in ''Error'' a | _ \<Rightarrow> False)
                then St_error answer
                else St_code answer))"

definition intermediate_widgets :: "chat \<Rightarrow> widget list option" where
  "intermediate_widgets chat =
     (case map_of chat ''intermediate'' of
        None \<Rightarrow> Some []
      | Some v \<Rightarrow>
          if truthy v
          then (case v of
                  PDict kvs \<Rightarrow>
                    Some [St_expander ''View Intermediate Steps'' (concat (map step_widgets kvs))]
                | _ \<Rightarrow> None)
          else Some [])"

definition display_chat :: "chat \<Rightarrow> message list option" where
  "display_chat chat =
     (case map_of chat ''question'' of
        None \<Rightarrow> None
      | Some question \<Rightarrow>
          (case answer_widget chat of
             None \<Rightarrow> None
           | Some w \<Rightarrow>
               (case intermediate_widgets chat of
                  None \<Rightarrow> None
                | Some ws \<Rightarrow>
                    Some [Chat_message ''user'' [St_text question],
                          Chat_message ''assistant'' (w # ws)])))"

fun display_previous_messages :: "chat list \<Rightarrow> message list option" where
  "display_previous_messages [] = Some []"
| "display_previous_messages (chat # rest) =
     (case display_chat chat of
        None \<Rightarrow> None
      | Some ms \<Rightarrow>
          (case display_previous_messages rest of
             None \<Rightarrow> None
           | Some ms' \<Rightarrow> Some (ms @ ms')))"

text \<open>
  One submission to the chat input: \<open>None\<close> when nothing was typed; the guard
  \<open>if user_question:\<close> also skips the empty string. The result is the history afterwards
  and what is drawn for this submission.
\<close>

definition handle_user_question ::
  "env \<Rightarrow> chat list \<Rightarrow> string option \<Rightarrow> chat list \<times> message list" where
  "handle_user_question E history user_question =
     (case user_question of
        None \<Rightarrow> (history, [])
      | Some q \<Rightarrow>
          if q = [] then (history, [])
          else
            (let (success, ansi_result, intermediate_results) =
                   (case convert_snowflake_to_ansi E q of
                      Inr (r, i) \<Rightarrow> (True, r, i)
                    | Inl e \<Rightarrow> (False, ''Error: '' @ str e, []));
                 chat_entry =
                   [(''question'', PStr q),
                    (''answer'', PStr ansi_result),
                    (''intermediate'', PDict intermediate_results)]
             in (history @ [chat_entry],
                 [Chat_message ''user'' [St_text (PStr q)],
                  Chat_message ''assistant''
                    ((if success then St_code (PStr ansi_result) else St_error (PStr ansi_result))
                     # (if success \<and> intermediate_results \<noteq> []
                        then [St_expander ''View Intermediate Steps''
                                (concat (map step_widgets intermediate_results))]
                        else []))])))"

section \<open>Stub environments used in examples\<close>

text \<open>A service that answers every stage with fixed text, and a reader for one JSON text.\<close>

definition example_env :: env where
  \<open>example_env =
     \<lparr>llm_invoke = (\<lambda>p m. case p of
                       ParserPrompt \<Rightarrow> Inr ''{"type":"select_statement"}''
                     | TranslatorPrompt \<Rightarrow> Inr ''SELECT LOWER(a) LIKE LOWER('x')''
                     | ValidatorPrompt \<Rightarrow> Inr ''SELECT LOWER(a) LIKE LOWER('x')''),
      json_loads = (\<lambda>t. if t = ''{"type":"select_statement"}''
                         then Inr (PDict [(''type'', PStr ''select_statement'')])
                         else Inl (Exception ''Expecting value'')),
      json_dumps = (\<lambda>v. Inr (''{'' @ [newline] @ ''  "type": "select_statement"''
                               @ [newline] @ ''}''))\<rparr>\<close>

text \<open>A service whose first answer is not JSON and whose last answer is blank.\<close>

definition blank_env :: env where
  \<open>blank_env =
     \<lparr>llm_invoke = (\<lambda>p m. case p of
                       ParserPrompt \<Rightarrow> Inr ''I cannot parse this''
                     | TranslatorPrompt \<Rightarrow> Inr ''  SELECT 1 ''
                     | ValidatorPrompt \<Rightarrow> Inr [CHR '' '', newline]),
      json_loads = (\<lambda>t. Inl (Exception ''Expecting value'')),
      json_dumps = (\<lambda>v. Inr (''{'' @ [newline] @ ''  "error": "Expecting value",''
                               @ [newline] @ ''  "raw_response": "I cannot parse this"''
                               @ [newline] @ ''}''))\<rparr>\<close>

text \<open>A service that cannot be reached.\<close>

definition failing_env :: env where
  "failing_env =
     \<lparr>llm_invoke = (\<lambda>p m. Inl (Exception ''Connection error.'')),
      json_loads = (\<lambda>t. Inl (Exception ''Expecting value'')),
      json_dumps = (\<lambda>v. Inr ''null'')\<rparr>"

text \<open>A service whose validated statement names a column \<open>ErrorCode\<close>.\<close>

definition error_column_env :: env where
  "error_column_env =
     \<lparr>llm_invoke = (\<lambda>p m. case p of
                       ParserPrompt \<Rightarrow> Inr ''null''
                     | TranslatorPrompt \<Rightarrow> Inr ''SELECT ErrorCode FROM logs''
                     | ValidatorPrompt \<Rightarrow> Inr ''SELECT ErrorCode FROM logs''),
      json_loads = (\<lambda>t. if t = ''null'' then Inr PNone else Inl (Exception ''Expecting value'')),
      json_dumps = (\<lambda>v. Inr ''null'')\<rparr>"

text \<open>Services that answer the first stage, or the first two, and then fail.\<close>

definition translator_down_env :: env where
  "translator_down_env =
     \<lparr>llm_invoke = (\<lambda>p m. case p of
                       ParserPrompt \<Rightarrow> Inr ''null''
                     | TranslatorPrompt \<Rightarrow> Inl (Exception ''Request timed out.'')
                     | ValidatorPrompt \<Rightarrow> Inr ''SELECT 1''),
      json_loads = (\<lambda>t. if t = ''null'' then Inr PNone else Inl (Exception ''Expecting value'')),
      json_dumps = (\<lambda>v. Inr ''null'')\<rparr>"

definition validator_down_env :: env where
  "validator_down_env =
     \<lparr>llm_invoke = (\<lambda>p m. case p of
                       ParserPrompt \<Rightarrow> Inr ''null''
                     | TranslatorPrompt \<Rightarrow> Inr ''SELECT 1''
                     | ValidatorPrompt \<Rightarrow> Inl (Exception ''Rate limit reached.'')),
      json_loads = (\<lambda>t. if t = ''null'' then Inr PNone else Inl (Exception ''Expecting value'')),
      json_dumps = (\<lambda>v. Inr ''null'')\<rparr>"

text \<open>
  A service whose first answer is a thousand opening brackets followed by a thousand
  closing ones: \<open>json.loads\<close> reads it as lists nested a thousand deep, which
  \<open>json.dumps\<close> with an indent cannot write.
\<close>

fun nested :: "nat \<Rightarrow> pyval" where
  "nested 0 = PList []"
| "nested (Suc n) = PList [nested n]"

definition deep_text :: string where
  "deep_text = replicate 1000 (CHR ''['') @ replicate 1000 (CHR '']'')"

definition deep_env :: env where
  "deep_env =
     \<lparr>llm_invoke = (\<lambda>p m. case p of
                       ParserPrompt \<Rightarrow> Inr deep_text
                     | TranslatorPrompt \<Rightarrow> Inr ''SELECT 1''
                     | ValidatorPrompt \<Rightarrow> Inr ''SELECT 1''),
      json_loads = (\<lambda>t. if t = deep_text then Inr (nested 999)
                         else Inl (Exception ''Expecting value'')),
      json_dumps = (\<lambda>v. if v = nested 999
                         then Inl (Exception ''maximum recursion depth exceeded'')
                         else Inr ''null'')\<rparr>"

section \<open>Basic facts\<close>

declare run_from.simps [simp del]

lemma run_from_END [simp]: "run_from E END s log = Inr (s, log)"
  by (subst run_from.simps) simp

lemma run_from_edge:
  assumes "node_action E n s = Inr ws" and "map_of edges n = Some n'"
  shows "run_from E n s log = run_from E n' (apply_update ws s) (log @ [(n, ws)])"
proof -
  from assms(2) have "n \<noteq> END"
    by (auto simp: edges_def split: if_splits)
  then show ?thesis
    using assms by (subst run_from.simps) simp
qed

lemma run_from_raise:
  assumes "node_action E n s = Inl e" and "n \<noteq> END"
  shows "run_from E n s log = Inl e"
  using assms by (subst run_from.simps) simp

lemma edges_out [simp]:
  "map_of edges START = Some ParserAgent"
  "map_of edges ParserAgent = Some TranslationAgent"
  "map_of edges TranslationAgent = Some SyntaxValidatorAgent"
  "map_of edges SyntaxValidatorAgent = Some END"
  "map_of edges END = None"
  by (simp_all add: edges_def)

lemma parse_writes:
  "parse_sql_to_ast E s = Inr ws \<Longrightarrow> \<exists>doc. ws = [Set_ast doc]"
  by (auto simp: parse_sql_to_ast_def Let_def split: sum.splits)

lemma translate_writes:
  "translate_ast_to_ansi E s = Inr ws \<Longrightarrow> \<exists>cand. ws = [Set_final_sql cand]"
  by (auto simp: translate_ast_to_ansi_def Let_def split: sum.splits)

lemma validate_writes:
  "validate_ansi_sql E s = Inr ws \<Longrightarrow> \<exists>out. ws = [Set_final_sql out]"
  by (auto simp: validate_ansi_sql_def Let_def split: sum.splits)

lemma apply_update_simps [simp]:
  "apply_update [] s = s"
  "apply_update [Set_ast a] s = s\<lparr>ast := a\<rparr>"
  "apply_update [Set_final_sql t] s = s\<lparr>final_sql := t\<rparr>"
  by (simp_all add: apply_update_def)

text \<open>The agents read only the fields they name.\<close>

lemma parse_reads:
  "input_query s = input_query s' \<Longrightarrow> parse_sql_to_ast E s = parse_sql_to_ast E s'"
  by (simp add: parse_sql_to_ast_def)

lemma translate_reads:
  "input_query s = input_query s' \<Longrightarrow> ast s = ast s'
     \<Longrightarrow> translate_ast_to_ansi E s = translate_ast_to_ansi E s'"
  by (simp add: translate_ast_to_ansi_def)

lemma validate_reads:
  "input_query s = input_query s' \<Longrightarrow> final_sql s = final_sql s'
     \<Longrightarrow> validate_ansi_sql E s = validate_ansi_sql E s'"
  by (simp add: validate_ansi_sql_def)

text \<open>A whole run, stage by stage.\<close>

lemma run_from_START:
  "run_from E START s [] =
     (case parse_sql_to_ast E s of
        Inl e \<Rightarrow> Inl e
      | Inr w1 \<Rightarrow>
          (case translate_ast_to_ansi E (apply_update w1 s) of
             Inl e \<Rightarrow> Inl e
           | Inr w2 \<Rightarrow>
               (case validate_ansi_sql E (apply_update w2 (apply_update w1 s)) of
                  Inl e \<Rightarrow> Inl e
                | Inr w3 \<Rightarrow>
                    Inr (apply_update w3 (apply_update w2 (apply_update w1 s)),
                         [(START, []), (ParserAgent, w1), (TranslationAgent, w2),
                          (SyntaxValidatorAgent, w3)]))))"
proof -
  have 0: "run_from E START s [] = run_from E ParserAgent s [(START, [])]"
    using run_from_edge [of E START s "[]" ParserAgent "[]"] by simp
  show ?thesis
  proof (cases "parse_sql_to_ast E s")
    case (Inl e)
    then show ?thesis
      using 0 run_from_raise [of E ParserAgent s e] by simp
  next
    case p: (Inr w1)
    let ?s1 = "apply_update w1 s"
    have 1: "run_from E ParserAgent s [(START, [])] =
             run_from E TranslationAgent ?s1 [(START, []), (ParserAgent, w1)]"
      using run_from_edge [of E ParserAgent s w1 TranslationAgent] p by simp
    show ?thesis
    proof (cases "translate_ast_to_ansi E ?s1")
      case (Inl e)
      then show ?thesis
        using 0 1 p run_from_raise [of E TranslationAgent ?s1 e] by simp
    next
      case t: (Inr w2)
      let ?s2 = "apply_update w2 ?s1"
      have 2: "run_from E TranslationAgent ?s1 [(START, []), (ParserAgent, w1)] =
               run_from E SyntaxValidatorAgent ?s2
                 [(START, []), (ParserAgent, w1), (TranslationAgent, w2)]"
        using run_from_edge [of E TranslationAgent ?s1 w2 SyntaxValidatorAgent] t by simp
      show ?thesis
      proof (cases "validate_ansi_sql E ?s2")
        case (Inl e)
        then show ?thesis
          using 0 1 2 p t run_from_raise [of E SyntaxValidatorAgent ?s2 e] by simp
      next
        case v: (Inr w3)
        have "run_from E SyntaxValidatorAgent ?s2
                [(START, []), (ParserAgent, w1), (TranslationAgent, w2)] =
              Inr (apply_update w3 ?s2,
                   [(START, []), (ParserAgent, w1), (TranslationAgent, w2),
                    (SyntaxValidatorAgent, w3)])"
          using run_from_edge [of E SyntaxValidatorAgent ?s2 w3 END] v by simp
        then show ?thesis
          using 0 1 2 p t v by simp
      qed
    qed
  qed
qed



text \<open>What each agent returns once the service has answered.\<close>

lemma parse_response:
  assumes "llm_invoke E ParserPrompt (''SQL to parse:'' @ [newline] @ input_query s) = Inr content"
  shows "parse_sql_to_ast E s =
           Inr [Set_ast (case json_loads E content of
                           Inr v \<Rightarrow> v
                         | Inl e \<Rightarrow> PDict [(''error'', PStr (str e)),
                                            (''raw_response'', PStr content)])]"
  using assms by (simp add: parse_sql_to_ast_def)

lemma translate_response:
  assumes "json_dumps E (ast s) = Inr dumped"
      and "llm_invoke E TranslatorPrompt
             (''Original Snowflake SQL:'' @ [newline] @ input_query s @ [newline, newline]
              @ ''AST:'' @ [newline] @ dumped) = Inr content"
  shows "translate_ast_to_ansi E s = Inr [Set_final_sql (strip content)]"
  using assms by (simp add: translate_ast_to_ansi_def)

lemma validate_response:
  assumes "llm_invoke E ValidatorPrompt
             (''Original Snowflake SQL:'' @ [newline] @ input_query s @ [newline, newline]
              @ ''ANSI SQL:'' @ [newline] @ final_sql s) = Inr content"
  shows "validate_ansi_sql E s = Inr [Set_final_sql (strip content)]"
  using assms by (simp add: validate_ansi_sql_def)


text \<open>A run that reaches \<open>END\<close>, and the converse.\<close>

lemma run_success_shape:
  assumes "run_from E START s [] = Inr (s', log)"
  shows "\<exists>doc cand out.
           parse_sql_to_ast E s = Inr [Set_ast doc]
         \<and> translate_ast_to_ansi E (s\<lparr>ast := doc\<rparr>) = Inr [Set_final_sql cand]
         \<and> validate_ansi_sql E (s\<lparr>ast := doc, final_sql := cand\<rparr>) = Inr [Set_final_sql out]
         \<and> s' = s\<lparr>ast := doc, final_sql := out\<rparr>
         \<and> log = [(START, []), (ParserAgent, [Set_ast doc]),
                  (TranslationAgent, [Set_final_sql cand]),
                  (SyntaxValidatorAgent, [Set_final_sql out])]"
proof -
  from assms obtain w1 where p: "parse_sql_to_ast E s = Inr w1"
    by (auto simp: run_from_START split: sum.splits)
  then obtain doc where w1: "w1 = [Set_ast doc]"
    using parse_writes by blast
  from assms p w1 obtain w2 where t: "translate_ast_to_ansi E (s\<lparr>ast := doc\<rparr>) = Inr w2"
    by (auto simp: run_from_START split: sum.splits)
  then obtain cand where w2: "w2 = [Set_final_sql cand]"
    using translate_writes by blast
  from assms p w1 t w2 obtain w3
    where v: "validate_ansi_sql E (s\<lparr>ast := doc, final_sql := cand\<rparr>) = Inr w3"
    by (auto simp: run_from_START split: sum.splits)
  then obtain out where w3: "w3 = [Set_final_sql out]"
    using validate_writes by blast
  from assms p w1 t w2 v w3 show ?thesis
    by (simp add: run_from_START)
qed

lemma run_success_intro:
  assumes "parse_sql_to_ast E s = Inr [Set_ast doc]"
      and "translate_ast_to_ansi E (s\<lparr>ast := doc\<rparr>) = Inr [Set_final_sql cand]"
      and "validate_ansi_sql E (s\<lparr>ast := doc, final_sql := cand\<rparr>) = Inr [Set_final_sql out]"
  shows "run_from E START s [] =
           Inr (s\<lparr>ast := doc, final_sql := out\<rparr>,
                [(START, []), (ParserAgent, [Set_ast doc]),
                 (TranslationAgent, [Set_final_sql cand]),
                 (SyntaxValidatorAgent, [Set_final_sql out])])"
  using assms by (simp add: run_from_START)

lemma convert_run:
  "convert_snowflake_to_ansi E q =
     (case run_from E START \<lparr>input_query = q, ast = PNone, final_sql = ''''\<rparr> [] of
        Inl e \<Rightarrow> Inl e
      | Inr (s, log) \<Rightarrow> Inr (final_sql s, [(''AST'', ast s)]))"
  by (simp add: convert_snowflake_to_ansi_def app_invoke_def split: sum.splits)

text \<open>A whole run in terms of the calls it makes, in the order it makes them.\<close>

lemma run_from_calls:
  "run_from E START \<lparr>input_query = q, ast = a0, final_sql = f0\<rparr> [] =
     (case llm_invoke E ParserPrompt (''SQL to parse:'' @ [newline] @ q) of
        Inl e \<Rightarrow> Inl e
      | Inr c1 \<Rightarrow>
          (let doc = (case json_loads E c1 of
                        Inr v \<Rightarrow> v
                      | Inl x \<Rightarrow> PDict [(''error'', PStr (str x)), (''raw_response'', PStr c1)])
           in case json_dumps E doc of
                Inl e \<Rightarrow> Inl e
              | Inr dumped \<Rightarrow>
                  (case llm_invoke E TranslatorPrompt
                          (''Original Snowflake SQL:'' @ [newline] @ q @ [newline, newline]
                           @ ''AST:'' @ [newline] @ dumped) of
                     Inl e \<Rightarrow> Inl e
                   | Inr c2 \<Rightarrow>
                       (case llm_invoke E ValidatorPrompt
                               (''Original Snowflake SQL:'' @ [newline] @ q @ [newline, newline]
                                @ ''ANSI SQL:'' @ [newline] @ strip c2) of
                          Inl e \<Rightarrow> Inl e
                        | Inr c3 \<Rightarrow>
                            Inr (\<lparr>input_query = q, ast = doc, final_sql = strip c3\<rparr>,
                                 [(START, []), (ParserAgent, [Set_ast doc]),
                                  (TranslationAgent, [Set_final_sql (strip c2)]),
                                  (SyntaxValidatorAgent, [Set_final_sql (strip c3)])])))))"
  by (simp add: run_from_START parse_sql_to_ast_def translate_ast_to_ansi_def
      validate_ansi_sql_def Let_def split: sum.splits)

lemmas stub_simps =
  convert_snowflake_to_ansi_def app_invoke_def run_from_START
  parse_sql_to_ast_def translate_ast_to_ansi_def validate_ansi_sql_def
  strip_def isspace_def

section \<open>Stage 1: containing a response that is not JSON\<close>

text \<open>
  C1. Whatever text the service returns to the parser agent, the \<open>try\<close>/\<open>except\<close> around
  \<open>json.loads\<close> lets nothing escape: the agent returns one write of \<open>ast\<close>, whose value is
  either the parsed value or the dictionary with the two keys \<open>error\<close> (the text of the
  exception) and \<open>raw_response\<close> (the response, unchanged), and the run goes on with the
  translation agent on the state holding that value.
\<close>

theorem structuring_contains_failure:
  assumes "llm_invoke E ParserPrompt (''SQL to parse:'' @ [newline] @ input_query s) = Inr content"
  shows "\<exists>doc.
           (json_loads E content = Inr doc
            \<or> (\<exists>e. json_loads E content = Inl e
                   \<and> doc = PDict [(''error'', PStr (str e)), (''raw_response'', PStr content)]))
         \<and> parse_sql_to_ast E s = Inr [Set_ast doc]
         \<and> run_from E ParserAgent s log =
             run_from E TranslationAgent (s\<lparr>ast := doc\<rparr>) (log @ [(ParserAgent, [Set_ast doc])])"
proof -
  let ?doc = "case json_loads E content of
                Inr v \<Rightarrow> v
              | Inl e \<Rightarrow> PDict [(''error'', PStr (str e)), (''raw_response'', PStr content)]"
  have p: "parse_sql_to_ast E s = Inr [Set_ast ?doc]"
    using assms by (rule parse_response)
  have "json_loads E content = Inr ?doc
        \<or> (\<exists>e. json_loads E content = Inl e
               \<and> ?doc = PDict [(''error'', PStr (str e)), (''raw_response'', PStr content)])"
    by (cases "json_loads E content") simp_all
  moreover have "run_from E ParserAgent s log =
      run_from E TranslationAgent (s\<lparr>ast := ?doc\<rparr>) (log @ [(ParserAgent, [Set_ast ?doc])])"
    using run_from_edge [of E ParserAgent s "[Set_ast ?doc]" TranslationAgent log] p by simp
  ultimately show ?thesis using p by blast
qed

text \<open>The same at a response that is not JSON.\<close>

theorem structuring_contains_failure_witness:
  "llm_invoke blank_env ParserPrompt
     (''SQL to parse:'' @ [newline]
      @ input_query \<lparr>input_query = ''SELECT 1'', ast = PNone, final_sql = ''''\<rparr>)
     = Inr ''I cannot parse this''
   \<and> (\<exists>doc.
         (json_loads blank_env ''I cannot parse this'' = Inr doc
          \<or> (\<exists>e. json_loads blank_env ''I cannot parse this'' = Inl e
                 \<and> doc = PDict [(''error'', PStr (str e)),
                                (''raw_response'', PStr ''I cannot parse this'')]))
       \<and> parse_sql_to_ast blank_env \<lparr>input_query = ''SELECT 1'', ast = PNone, final_sql = ''''\<rparr>
           = Inr [Set_ast doc]
       \<and> run_from blank_env ParserAgent
             \<lparr>input_query = ''SELECT 1'', ast = PNone, final_sql = ''''\<rparr> []
           = run_from blank_env TranslationAgent
               (\<lparr>input_query = ''SELECT 1'', ast = PNone, final_sql = ''''\<rparr>\<lparr>ast := doc\<rparr>)
               ([] @ [(ParserAgent, [Set_ast doc])]))"
proof -
  have h: "llm_invoke blank_env ParserPrompt
     (''SQL to parse:'' @ [newline]
      @ input_query \<lparr>input_query = ''SELECT 1'', ast = PNone, final_sql = ''''\<rparr>)
     = Inr ''I cannot parse this''"
    by (simp add: blank_env_def)
  show ?thesis
    using h structuring_contains_failure [OF h, of "[]"] by blast
qed

section \<open>What a conversion returns\<close>




text \<open>
  \<open>str_in\<close> is the substring test: some text before, the block, some text after.
\<close>

lemma str_in_iff: "str_in sub s \<longleftrightarrow> (\<exists>ps ss. s = ps @ sub @ ss)"
proof (induction s)
  case Nil
  then show ?case by auto
next
  case (Cons c cs)
  have a: "take (length sub) (c # cs) = sub \<longleftrightarrow> (\<exists>ss. c # cs = sub @ ss)"
    by (metis append_eq_conv_conj)
  have b: "(\<exists>ps ss. c # cs = ps @ sub @ ss)
           \<longleftrightarrow> (\<exists>ss. c # cs = sub @ ss) \<or> (\<exists>ps ss. cs = ps @ sub @ ss)"
  proof
    assume "\<exists>ps ss. c # cs = ps @ sub @ ss"
    then obtain ps ss where e: "c # cs = ps @ sub @ ss" by blast
    show "(\<exists>ss. c # cs = sub @ ss) \<or> (\<exists>ps ss. cs = ps @ sub @ ss)"
    proof (cases ps)
      case Nil
      with e show ?thesis by auto
    next
      case (Cons p ps')
      with e have "cs = ps' @ sub @ ss" by simp
      then show ?thesis by blast
    qed
  next
    assume "(\<exists>ss. c # cs = sub @ ss) \<or> (\<exists>ps ss. cs = ps @ sub @ ss)"
    then show "\<exists>ps ss. c # cs = ps @ sub @ ss"
    proof
      assume "\<exists>ss. c # cs = sub @ ss"
      then obtain ss where "c # cs = [] @ sub @ ss" by auto
      then show ?thesis by blast
    next
      assume "\<exists>ps ss. cs = ps @ sub @ ss"
      then obtain ps ss where "c # cs = (c # ps) @ sub @ ss" by auto
      then show ?thesis by blast
    qed
  qed
  show ?case using Cons.IH a b by simp
qed

section \<open>The entry point\<close>

text \<open>
  C3. A conversion that succeeds returns a pair. Its first component is the text the
  validation agent wrote, its second a dictionary with the one key \<open>AST\<close>, holding the
  value the parser agent wrote. In the example the service answers stage 1 with
  \<open>{"type":"select_statement"}\<close>, which \<open>json.loads\<close> reads as a dictionary with that one
  entry and \<open>json.dumps\<close> writes back as text, and stages 2 and 3 with \<open>SELECT LOWER(a) LIKE LOWER('x')\<close>; the request
  \<open>SELECT a ILIKE 'x'\<close> then returns that statement and the dictionary under \<open>AST\<close>.
\<close>

theorem convert_returns_validated_text_and_ast:
  \<open>(\<forall>r a. convert_snowflake_to_ansi E q = Inr (r, a) \<longrightarrow>
      (\<exists>doc cand.
          parse_sql_to_ast E \<lparr>input_query = q, ast = PNone, final_sql = ''''\<rparr> = Inr [Set_ast doc]
        \<and> translate_ast_to_ansi E \<lparr>input_query = q, ast = doc, final_sql = ''''\<rparr>
            = Inr [Set_final_sql cand]
        \<and> validate_ansi_sql E \<lparr>input_query = q, ast = doc, final_sql = cand\<rparr>
            = Inr [Set_final_sql r]
        \<and> a = [(''AST'', doc)]))
   \<and> ((\<forall>m. llm_invoke E ParserPrompt m = Inr ''{"type":"select_statement"}'')
        \<and> json_loads E ''{"type":"select_statement"}''
            = Inr (PDict [(''type'', PStr ''select_statement'')])
        \<and> (\<exists>dumped. json_dumps E (PDict [(''type'', PStr ''select_statement'')]) = Inr dumped)
        \<and> (\<forall>m. llm_invoke E TranslatorPrompt m = Inr ''SELECT LOWER(a) LIKE LOWER('x')'')
        \<and> (\<forall>m. llm_invoke E ValidatorPrompt m = Inr ''SELECT LOWER(a) LIKE LOWER('x')'')
       \<longrightarrow> convert_snowflake_to_ansi E (''SELECT a ILIKE '' @ [CHR 0x27, CHR ''x'', CHR 0x27])
            = Inr (''SELECT LOWER(a) LIKE LOWER('x')'',
                   [(''AST'', PDict [(''type'', PStr ''select_statement'')])]))\<close>
proof (intro conjI allI impI)
  fix r a
  let ?s = "\<lparr>input_query = q, ast = PNone, final_sql = ''''\<rparr>"
  assume c: "convert_snowflake_to_ansi E q = Inr (r, a)"
  then obtain s' log where run: "run_from E START ?s [] = Inr (s', log)"
    and r: "r = final_sql s'" and a: "a = [(''AST'', ast s')]"
    by (auto simp: convert_run split: sum.splits)
  from run_success_shape [OF run] r a
  show "\<exists>doc cand.
          parse_sql_to_ast E ?s = Inr [Set_ast doc]
        \<and> translate_ast_to_ansi E \<lparr>input_query = q, ast = doc, final_sql = ''''\<rparr>
            = Inr [Set_final_sql cand]
        \<and> validate_ansi_sql E \<lparr>input_query = q, ast = doc, final_sql = cand\<rparr>
            = Inr [Set_final_sql r]
        \<and> a = [(''AST'', doc)]"
    by auto
next
  assume \<open>(\<forall>m. llm_invoke E ParserPrompt m = Inr ''{"type":"select_statement"}'')
        \<and> json_loads E ''{"type":"select_statement"}''
            = Inr (PDict [(''type'', PStr ''select_statement'')])
        \<and> (\<exists>dumped. json_dumps E (PDict [(''type'', PStr ''select_statement'')]) = Inr dumped)
        \<and> (\<forall>m. llm_invoke E TranslatorPrompt m = Inr ''SELECT LOWER(a) LIKE LOWER('x')'')
        \<and> (\<forall>m. llm_invoke E ValidatorPrompt m = Inr ''SELECT LOWER(a) LIKE LOWER('x')'')\<close>
  then show \<open>convert_snowflake_to_ansi E (''SELECT a ILIKE '' @ [CHR 0x27, CHR ''x'', CHR 0x27])
            = Inr (''SELECT LOWER(a) LIKE LOWER('x')'',
                   [(''AST'', PDict [(''type'', PStr ''select_statement'')])])\<close>
    by (auto simp: stub_simps)
qed

text \<open>
  The example, with the stub service.
\<close>

theorem convert_returns_validated_text_and_ast_witness:
  \<open>convert_snowflake_to_ansi example_env (''SELECT a ILIKE '' @ [CHR 0x27, CHR ''x'', CHR 0x27])
     = Inr (''SELECT LOWER(a) LIKE LOWER('x')'',
            [(''AST'', PDict [(''type'', PStr ''select_statement'')])])
   \<and> (\<exists>doc cand.
          parse_sql_to_ast example_env
            \<lparr>input_query = ''SELECT a ILIKE '' @ [CHR 0x27, CHR ''x'', CHR 0x27],
             ast = PNone, final_sql = ''''\<rparr> = Inr [Set_ast doc]
        \<and> translate_ast_to_ansi example_env
            \<lparr>input_query = ''SELECT a ILIKE '' @ [CHR 0x27, CHR ''x'', CHR 0x27],
             ast = doc, final_sql = ''''\<rparr> = Inr [Set_final_sql cand]
        \<and> validate_ansi_sql example_env
            \<lparr>input_query = ''SELECT a ILIKE '' @ [CHR 0x27, CHR ''x'', CHR 0x27],
             ast = doc, final_sql = cand\<rparr> = Inr [Set_final_sql ''SELECT LOWER(a) LIKE LOWER('x')'']
        \<and> [(''AST'', PDict [(''type'', PStr ''select_statement'')])] = [(''AST'', doc)])\<close>
proof -
  let ?q = "''SELECT a ILIKE '' @ [CHR 0x27, CHR ''x'', CHR 0x27]"
  have stub: \<open>(\<forall>m. llm_invoke example_env ParserPrompt m = Inr ''{"type":"select_statement"}'')
        \<and> json_loads example_env ''{"type":"select_statement"}''
            = Inr (PDict [(''type'', PStr ''select_statement'')])
        \<and> (\<exists>dumped. json_dumps example_env (PDict [(''type'', PStr ''select_statement'')])
                      = Inr dumped)
        \<and> (\<forall>m. llm_invoke example_env TranslatorPrompt m = Inr ''SELECT LOWER(a) LIKE LOWER('x')'')
        \<and> (\<forall>m. llm_invoke example_env ValidatorPrompt m = Inr ''SELECT LOWER(a) LIKE LOWER('x')'')\<close>
    by (simp add: example_env_def)
  note t = convert_returns_validated_text_and_ast [of example_env ?q]
  from t stub have c: \<open>convert_snowflake_to_ansi example_env ?q
     = Inr (''SELECT LOWER(a) LIKE LOWER('x')'',
            [(''AST'', PDict [(''type'', PStr ''select_statement'')])])\<close>
    by blast
  with t show ?thesis by blast
qed

section \<open>Which stage writes which field\<close>

text \<open>
  C4. In a run that reaches \<open>END\<close> the query is what it was at the start, and the
  updates are, in order: one write of \<open>ast\<close> by the parser agent, one write of
  \<open>final_sql\<close> by the translation agent, one write of \<open>final_sql\<close> by the validation
  agent. The final \<open>ast\<close> is the parser's value. On any state, the parser agent leaves
  the query and \<open>final_sql\<close> alone, and the other two leave the query and \<open>ast\<close> alone.
\<close>

theorem fields_written_by_their_stage_only:
  assumes "run_from E START s [] = Inr (s', log)"
  shows "input_query s' = input_query s
       \<and> (\<exists>doc cand out.
             log = [(START, []), (ParserAgent, [Set_ast doc]),
                    (TranslationAgent, [Set_final_sql cand]),
                    (SyntaxValidatorAgent, [Set_final_sql out])]
           \<and> ast s' = doc \<and> final_sql s' = out)
       \<and> (\<forall>t ws. parse_sql_to_ast E t = Inr ws \<longrightarrow>
             input_query (apply_update ws t) = input_query t
           \<and> final_sql (apply_update ws t) = final_sql t)
       \<and> (\<forall>t ws. translate_ast_to_ansi E t = Inr ws \<longrightarrow>
             input_query (apply_update ws t) = input_query t
           \<and> ast (apply_update ws t) = ast t)
       \<and> (\<forall>t ws. validate_ansi_sql E t = Inr ws \<longrightarrow>
             input_query (apply_update ws t) = input_query t
           \<and> ast (apply_update ws t) = ast t)"
proof -
  from run_success_shape [OF assms] have
    "input_query s' = input_query s
       \<and> (\<exists>doc cand out.
             log = [(START, []), (ParserAgent, [Set_ast doc]),
                    (TranslationAgent, [Set_final_sql cand]),
                    (SyntaxValidatorAgent, [Set_final_sql out])]
           \<and> ast s' = doc \<and> final_sql s' = out)"
    by auto
  moreover have "\<forall>t ws. parse_sql_to_ast E t = Inr ws \<longrightarrow>
             input_query (apply_update ws t) = input_query t
           \<and> final_sql (apply_update ws t) = final_sql t"
    using parse_writes by fastforce
  moreover have "\<forall>t ws. translate_ast_to_ansi E t = Inr ws \<longrightarrow>
             input_query (apply_update ws t) = input_query t
           \<and> ast (apply_update ws t) = ast t"
    using translate_writes by fastforce
  moreover have "\<forall>t ws. validate_ansi_sql E t = Inr ws \<longrightarrow>
             input_query (apply_update ws t) = input_query t
           \<and> ast (apply_update ws t) = ast t"
    using validate_writes by fastforce
  ultimately show ?thesis by blast
qed

text \<open>
  A run of the example service, and the two later agents on a state with other contents.
\<close>

theorem fields_written_by_their_stage_only_witness:
  \<open>run_from example_env START \<lparr>input_query = ''SELECT 1'', ast = PNone, final_sql = ''''\<rparr> []
     = Inr (\<lparr>input_query = ''SELECT 1'',
             ast = PDict [(''type'', PStr ''select_statement'')],
             final_sql = ''SELECT LOWER(a) LIKE LOWER('x')''\<rparr>,
            [(START, []),
             (ParserAgent, [Set_ast (PDict [(''type'', PStr ''select_statement'')])]),
             (TranslationAgent, [Set_final_sql ''SELECT LOWER(a) LIKE LOWER('x')'']),
             (SyntaxValidatorAgent, [Set_final_sql ''SELECT LOWER(a) LIKE LOWER('x')''])])
   \<and> translate_ast_to_ansi example_env \<lparr>input_query = ''SELECT 1'', ast = PInt 7, final_sql = ''old''\<rparr>
       = Inr [Set_final_sql ''SELECT LOWER(a) LIKE LOWER('x')'']
   \<and> ast (apply_update [Set_final_sql ''SELECT LOWER(a) LIKE LOWER('x')'']
            \<lparr>input_query = ''SELECT 1'', ast = PInt 7, final_sql = ''old''\<rparr>) = PInt 7
   \<and> validate_ansi_sql example_env \<lparr>input_query = ''SELECT 1'', ast = PInt 7, final_sql = ''old''\<rparr>
       = Inr [Set_final_sql ''SELECT LOWER(a) LIKE LOWER('x')'']
   \<and> input_query (apply_update [Set_final_sql ''SELECT LOWER(a) LIKE LOWER('x')'']
            \<lparr>input_query = ''SELECT 1'', ast = PInt 7, final_sql = ''old''\<rparr>) = ''SELECT 1''\<close>
proof -
  let ?s = "\<lparr>input_query = ''SELECT 1'', ast = PNone, final_sql = ''''\<rparr>"
  let ?t = "\<lparr>input_query = ''SELECT 1'', ast = PInt 7, final_sql = ''old''\<rparr>"
  have run: \<open>run_from example_env START ?s []
     = Inr (\<lparr>input_query = ''SELECT 1'',
             ast = PDict [(''type'', PStr ''select_statement'')],
             final_sql = ''SELECT LOWER(a) LIKE LOWER('x')''\<rparr>,
            [(START, []),
             (ParserAgent, [Set_ast (PDict [(''type'', PStr ''select_statement'')])]),
             (TranslationAgent, [Set_final_sql ''SELECT LOWER(a) LIKE LOWER('x')'']),
             (SyntaxValidatorAgent, [Set_final_sql ''SELECT LOWER(a) LIKE LOWER('x')''])])\<close>
    by (simp add: stub_simps example_env_def)
  have tr: \<open>translate_ast_to_ansi example_env ?t
       = Inr [Set_final_sql ''SELECT LOWER(a) LIKE LOWER('x')'']\<close>
    by (simp add: stub_simps example_env_def)
  have va: \<open>validate_ansi_sql example_env ?t
       = Inr [Set_final_sql ''SELECT LOWER(a) LIKE LOWER('x')'']\<close>
    by (simp add: stub_simps example_env_def)
  note t = fields_written_by_their_stage_only [OF run]
  from t tr have \<open>ast (apply_update [Set_final_sql ''SELECT LOWER(a) LIKE LOWER('x')''] ?t) = PInt 7\<close>
    by simp
  moreover from t va
  have \<open>input_query (apply_update [Set_final_sql ''SELECT LOWER(a) LIKE LOWER('x')''] ?t)
          = ''SELECT 1''\<close>
    by simp
  ultimately show ?thesis using run tr va by blast
qed

section \<open>Stage 3 has the last word\<close>

text \<open>
  C5. Whatever the service answers to the validation agent, the agent writes that answer,
  stripped, to \<open>final_sql\<close>; nothing compares it with the candidate. The run ends in the
  state with the same query and \<open>ast\<close> and with that text as \<open>final_sql\<close>: the
  candidate is gone from the state.
\<close>

theorem validation_overwrites_final_sql:
  assumes "llm_invoke E ValidatorPrompt
             (''Original Snowflake SQL:'' @ [newline] @ input_query s @ [newline, newline]
              @ ''ANSI SQL:'' @ [newline] @ final_sql s) = Inr content"
  shows "validate_ansi_sql E s = Inr [Set_final_sql (strip content)]
       \<and> run_from E SyntaxValidatorAgent s log =
           Inr (\<lparr>input_query = input_query s, ast = ast s, final_sql = strip content\<rparr>,
                log @ [(SyntaxValidatorAgent, [Set_final_sql (strip content)])])"
proof -
  have v: "validate_ansi_sql E s = Inr [Set_final_sql (strip content)]"
    using assms by (rule validate_response)
  have "s\<lparr>final_sql := strip content\<rparr>
          = \<lparr>input_query = input_query s, ast = ast s, final_sql = strip content\<rparr>"
    by (cases s) simp
  then have "run_from E SyntaxValidatorAgent s log =
           Inr (\<lparr>input_query = input_query s, ast = ast s, final_sql = strip content\<rparr>,
                log @ [(SyntaxValidatorAgent, [Set_final_sql (strip content)])])"
    using run_from_edge [of E SyntaxValidatorAgent s "[Set_final_sql (strip content)]" END log] v
    by simp
  with v show ?thesis by blast
qed

text \<open>
  A validator whose answer differs from the candidate.
\<close>

theorem validation_overwrites_final_sql_witness:
  "llm_invoke error_column_env ValidatorPrompt
     (''Original Snowflake SQL:'' @ [newline]
      @ input_query \<lparr>input_query = ''SELECT 1'', ast = PNone, final_sql = ''SELECT 2''\<rparr>
      @ [newline, newline] @ ''ANSI SQL:'' @ [newline]
      @ final_sql \<lparr>input_query = ''SELECT 1'', ast = PNone, final_sql = ''SELECT 2''\<rparr>)
     = Inr ''SELECT ErrorCode FROM logs''
   \<and> validate_ansi_sql error_column_env
       \<lparr>input_query = ''SELECT 1'', ast = PNone, final_sql = ''SELECT 2''\<rparr>
       = Inr [Set_final_sql ''SELECT ErrorCode FROM logs'']
   \<and> run_from error_column_env SyntaxValidatorAgent
       \<lparr>input_query = ''SELECT 1'', ast = PNone, final_sql = ''SELECT 2''\<rparr> []
       = Inr (\<lparr>input_query = ''SELECT 1'', ast = PNone, final_sql = ''SELECT ErrorCode FROM logs''\<rparr>,
              [(SyntaxValidatorAgent, [Set_final_sql ''SELECT ErrorCode FROM logs''])])"
proof -
  let ?s = "\<lparr>input_query = ''SELECT 1'', ast = PNone, final_sql = ''SELECT 2''\<rparr>"
  have h: "llm_invoke error_column_env ValidatorPrompt
     (''Original Snowflake SQL:'' @ [newline] @ input_query ?s
      @ [newline, newline] @ ''ANSI SQL:'' @ [newline] @ final_sql ?s)
     = Inr ''SELECT ErrorCode FROM logs''"
    by (simp add: error_column_env_def)
  have st: "strip ''SELECT ErrorCode FROM logs'' = ''SELECT ErrorCode FROM logs''"
    by (simp add: strip_def isspace_def)
  show ?thesis
    using h validation_overwrites_final_sql [OF h, of "[]"] st by simp
qed

section \<open>The graph is a line\<close>

text \<open>
  C6. Every node but \<open>END\<close> has exactly one edge out, along
  \<open>START\<close>, \<open>ParserAgent\<close>, \<open>TranslationAgent\<close>, \<open>SyntaxValidatorAgent\<close>,
  \<open>END\<close>. A node that returns is followed by the node its edge names, whatever it
  returned. In a run that reaches \<open>END\<close> the translation agent ran on the state holding
  the parser's value, and the final \<open>final_sql\<close> is the value the validation agent wrote.
\<close>

theorem workflow_is_linear:
  "map_of edges START = Some ParserAgent
   \<and> map_of edges ParserAgent = Some TranslationAgent
   \<and> map_of edges TranslationAgent = Some SyntaxValidatorAgent
   \<and> map_of edges SyntaxValidatorAgent = Some END
   \<and> map_of edges END = None
   \<and> distinct (map fst edges)
   \<and> (\<forall>n n' s ws log.
         node_action E n s = Inr ws \<and> map_of edges n = Some n' \<longrightarrow>
         run_from E n s log = run_from E n' (apply_update ws s) (log @ [(n, ws)]))
   \<and> (\<forall>s s' log.
         run_from E START s [] = Inr (s', log) \<longrightarrow>
         (\<exists>doc cand out.
             parse_sql_to_ast E s = Inr [Set_ast doc]
           \<and> translate_ast_to_ansi E (s\<lparr>ast := doc\<rparr>) = Inr [Set_final_sql cand]
           \<and> validate_ansi_sql E (s\<lparr>ast := doc, final_sql := cand\<rparr>) = Inr [Set_final_sql out]
           \<and> log = [(START, []), (ParserAgent, [Set_ast doc]),
                    (TranslationAgent, [Set_final_sql cand]),
                    (SyntaxValidatorAgent, [Set_final_sql out])]
           \<and> final_sql s' = out))"
proof -
  have "distinct (map fst edges)"
    by (simp add: edges_def)
  moreover have "\<forall>n n' s ws log.
         node_action E n s = Inr ws \<and> map_of edges n = Some n' \<longrightarrow>
         run_from E n s log = run_from E n' (apply_update ws s) (log @ [(n, ws)])"
    using run_from_edge by blast
  moreover have "\<forall>s s' log.
         run_from E START s [] = Inr (s', log) \<longrightarrow>
         (\<exists>doc cand out.
             parse_sql_to_ast E s = Inr [Set_ast doc]
           \<and> translate_ast_to_ansi E (s\<lparr>ast := doc\<rparr>) = Inr [Set_final_sql cand]
           \<and> validate_ansi_sql E (s\<lparr>ast := doc, final_sql := cand\<rparr>) = Inr [Set_final_sql out]
           \<and> log = [(START, []), (ParserAgent, [Set_ast doc]),
                    (TranslationAgent, [Set_final_sql cand]),
                    (SyntaxValidatorAgent, [Set_final_sql out])]
           \<and> final_sql s' = out)"
  proof (intro allI impI)
    fix s s' log
    assume "run_from E START s [] = Inr (s', log)"
    from run_success_shape [OF this]
    show "\<exists>doc cand out.
             parse_sql_to_ast E s = Inr [Set_ast doc]
           \<and> translate_ast_to_ansi E (s\<lparr>ast := doc\<rparr>) = Inr [Set_final_sql cand]
           \<and> validate_ansi_sql E (s\<lparr>ast := doc, final_sql := cand\<rparr>) = Inr [Set_final_sql out]
           \<and> log = [(START, []), (ParserAgent, [Set_ast doc]),
                    (TranslationAgent, [Set_final_sql cand]),
                    (SyntaxValidatorAgent, [Set_final_sql out])]
           \<and> final_sql s' = out"
      by auto
  qed
  ultimately show ?thesis by simp
qed

text \<open>
  A run in which the parser value is the error dictionary and the final text is empty.
\<close>

theorem workflow_is_linear_witness:
  "node_action blank_env ParserAgent \<lparr>input_query = ''SELECT 1'', ast = PNone, final_sql = ''''\<rparr>
     = Inr [Set_ast (PDict [(''error'', PStr ''Expecting value''),
                            (''raw_response'', PStr ''I cannot parse this'')])]
   \<and> map_of edges ParserAgent = Some TranslationAgent
   \<and> run_from blank_env ParserAgent
       \<lparr>input_query = ''SELECT 1'', ast = PNone, final_sql = ''''\<rparr> [(START, [])]
     = run_from blank_env TranslationAgent
         \<lparr>input_query = ''SELECT 1'',
          ast = PDict [(''error'', PStr ''Expecting value''),
                       (''raw_response'', PStr ''I cannot parse this'')],
          final_sql = ''''\<rparr>
         [(START, []),
          (ParserAgent, [Set_ast (PDict [(''error'', PStr ''Expecting value''),
                                         (''raw_response'', PStr ''I cannot parse this'')])])]
   \<and> run_from blank_env START \<lparr>input_query = ''SELECT 1'', ast = PNone, final_sql = ''''\<rparr> []
     = Inr (\<lparr>input_query = ''SELECT 1'',
             ast = PDict [(''error'', PStr ''Expecting value''),
                          (''raw_response'', PStr ''I cannot parse this'')],
             final_sql = ''''\<rparr>,
            [(START, []),
             (ParserAgent, [Set_ast (PDict [(''error'', PStr ''Expecting value''),
                                            (''raw_response'', PStr ''I cannot parse this'')])]),
             (TranslationAgent, [Set_final_sql ''SELECT 1'']),
             (SyntaxValidatorAgent, [Set_final_sql ''''])])"
proof -
  let ?s = "\<lparr>input_query = ''SELECT 1'', ast = PNone, final_sql = ''''\<rparr>"
  let ?doc = "PDict [(''error'', PStr ''Expecting value''),
                     (''raw_response'', PStr ''I cannot parse this'')]"
  have a: "node_action blank_env ParserAgent ?s = Inr [Set_ast ?doc]"
    by (simp add: stub_simps blank_env_def)
  have r: "run_from blank_env START ?s []
     = Inr (\<lparr>input_query = ''SELECT 1'', ast = ?doc, final_sql = ''''\<rparr>,
            [(START, []), (ParserAgent, [Set_ast ?doc]),
             (TranslationAgent, [Set_final_sql ''SELECT 1'']),
             (SyntaxValidatorAgent, [Set_final_sql ''''])])"
    by (simp add: stub_simps blank_env_def)
  note t = workflow_is_linear [of blank_env]
  from t a have "run_from blank_env ParserAgent ?s [(START, [])]
     = run_from blank_env TranslationAgent (apply_update [Set_ast ?doc] ?s)
         ([(START, [])] @ [(ParserAgent, [Set_ast ?doc])])"
    by blast
  then show ?thesis using a r by simp
qed

section \<open>A request whose service call fails\<close>

text \<open>
  C7, as the program has it. When the service raises at the first call, or answers the
  first call and raises at the second, or answers the first two and raises at the third,
  the run stops there, the conversion raises the same exception, and the chat handler
  appends one entry to the history: the question, the answer \<open>Error: \<close> followed by the
  text of the exception, and an empty dictionary of intermediate results. It draws the
  answer as an error. The entry has these three keys and no other.
\<close>

theorem failed_request_is_recorded:
  assumes "q \<noteq> []"
      and "llm_invoke E ParserPrompt (''SQL to parse:'' @ [newline] @ q) = Inl e
           \<or> (\<exists>c1 dumped.
                  llm_invoke E ParserPrompt (''SQL to parse:'' @ [newline] @ q) = Inr c1
                \<and> json_dumps E
                      (case json_loads E c1 of
                         Inr v \<Rightarrow> v
                       | Inl x \<Rightarrow> PDict [(''error'', PStr (str x)), (''raw_response'', PStr c1)])
                    = Inr dumped
                \<and> (llm_invoke E TranslatorPrompt
                       (''Original Snowflake SQL:'' @ [newline] @ q @ [newline, newline]
                        @ ''AST:'' @ [newline] @ dumped) = Inl e
                    \<or> (\<exists>c2.
                           llm_invoke E TranslatorPrompt
                             (''Original Snowflake SQL:'' @ [newline] @ q @ [newline, newline]
                              @ ''AST:'' @ [newline] @ dumped) = Inr c2
                         \<and> llm_invoke E ValidatorPrompt
                             (''Original Snowflake SQL:'' @ [newline] @ q @ [newline, newline]
                              @ ''ANSI SQL:'' @ [newline] @ strip c2) = Inl e)))"
  shows "run_from E START \<lparr>input_query = q, ast = PNone, final_sql = ''''\<rparr> [] = Inl e
       \<and> convert_snowflake_to_ansi E q = Inl e
       \<and> handle_user_question E history (Some q) =
           (history @ [[(''question'', PStr q),
                        (''answer'', PStr (''Error: '' @ str e)),
                        (''intermediate'', PDict [])]],
            [Chat_message ''user'' [St_text (PStr q)],
             Chat_message ''assistant'' [St_error (PStr (''Error: '' @ str e))]])"
proof -
  have run: "run_from E START \<lparr>input_query = q, ast = PNone, final_sql = ''''\<rparr> [] = Inl e"
    using assms(2) by (auto simp: run_from_calls)
  then have c: "convert_snowflake_to_ansi E q = Inl e"
    by (simp add: convert_run)
  with assms(1) have "handle_user_question E history (Some q) =
           (history @ [[(''question'', PStr q),
                        (''answer'', PStr (''Error: '' @ str e)),
                        (''intermediate'', PDict [])]],
            [Chat_message ''user'' [St_text (PStr q)],
             Chat_message ''assistant'' [St_error (PStr (''Error: '' @ str e))]])"
    by (simp add: handle_user_question_def)
  with run c show ?thesis by blast
qed

text \<open>A service that fails at the first call, one at the second, one at the third.\<close>

theorem failed_request_is_recorded_witness:
  "''SELECT 1'' \<noteq> []
   \<and> llm_invoke failing_env ParserPrompt (''SQL to parse:'' @ [newline] @ ''SELECT 1'')
       = Inl (Exception ''Connection error.'')
   \<and> convert_snowflake_to_ansi failing_env ''SELECT 1'' = Inl (Exception ''Connection error.'')
   \<and> handle_user_question failing_env [] (Some ''SELECT 1'') =
       ([[(''question'', PStr ''SELECT 1''),
          (''answer'', PStr ''Error: Connection error.''),
          (''intermediate'', PDict [])]],
        [Chat_message ''user'' [St_text (PStr ''SELECT 1'')],
         Chat_message ''assistant'' [St_error (PStr ''Error: Connection error.'')]])
   \<and> llm_invoke translator_down_env ParserPrompt (''SQL to parse:'' @ [newline] @ ''SELECT 1'')
       = Inr ''null''
   \<and> json_dumps translator_down_env PNone = Inr ''null''
   \<and> llm_invoke translator_down_env TranslatorPrompt
       (''Original Snowflake SQL:'' @ [newline] @ ''SELECT 1'' @ [newline, newline]
        @ ''AST:'' @ [newline] @ ''null'') = Inl (Exception ''Request timed out.'')
   \<and> convert_snowflake_to_ansi translator_down_env ''SELECT 1''
       = Inl (Exception ''Request timed out.'')
   \<and> handle_user_question translator_down_env [] (Some ''SELECT 1'') =
       ([[(''question'', PStr ''SELECT 1''),
          (''answer'', PStr ''Error: Request timed out.''),
          (''intermediate'', PDict [])]],
        [Chat_message ''user'' [St_text (PStr ''SELECT 1'')],
         Chat_message ''assistant'' [St_error (PStr ''Error: Request timed out.'')]])
   \<and> llm_invoke validator_down_env TranslatorPrompt
       (''Original Snowflake SQL:'' @ [newline] @ ''SELECT 1'' @ [newline, newline]
        @ ''AST:'' @ [newline] @ ''null'') = Inr ''SELECT 1''
   \<and> llm_invoke validator_down_env ValidatorPrompt
       (''Original Snowflake SQL:'' @ [newline] @ ''SELECT 1'' @ [newline, newline]
        @ ''ANSI SQL:'' @ [newline] @ strip ''SELECT 1'') = Inl (Exception ''Rate limit reached.'')
   \<and> convert_snowflake_to_ansi validator_down_env ''SELECT 1''
       = Inl (Exception ''Rate limit reached.'')
   \<and> handle_user_question validator_down_env [] (Some ''SELECT 1'') =
       ([[(''question'', PStr ''SELECT 1''),
          (''answer'', PStr ''Error: Rate limit reached.''),
          (''intermediate'', PDict [])]],
        [Chat_message ''user'' [St_text (PStr ''SELECT 1'')],
         Chat_message ''assistant'' [St_error (PStr ''Error: Rate limit reached.'')]])"
proof -
  have n: "''SELECT 1'' \<noteq> []"
    by simp
  have p1: "llm_invoke failing_env ParserPrompt (''SQL to parse:'' @ [newline] @ ''SELECT 1'')
       = Inl (Exception ''Connection error.'')"
    by (simp add: failing_env_def)
  have p2: "llm_invoke translator_down_env ParserPrompt (''SQL to parse:'' @ [newline] @ ''SELECT 1'')
       = Inr ''null''"
    by (simp add: translator_down_env_def)
  have l2: "json_loads translator_down_env ''null'' = Inr PNone"
    by (simp add: translator_down_env_def)
  have d2: "json_dumps translator_down_env PNone = Inr ''null''"
    by (simp add: translator_down_env_def)
  have t2: "llm_invoke translator_down_env TranslatorPrompt
       (''Original Snowflake SQL:'' @ [newline] @ ''SELECT 1'' @ [newline, newline]
        @ ''AST:'' @ [newline] @ ''null'') = Inl (Exception ''Request timed out.'')"
    by (simp add: translator_down_env_def)
  have p3: "llm_invoke validator_down_env ParserPrompt (''SQL to parse:'' @ [newline] @ ''SELECT 1'')
       = Inr ''null''"
    by (simp add: validator_down_env_def)
  have l3: "json_loads validator_down_env ''null'' = Inr PNone"
    by (simp add: validator_down_env_def)
  have d3: "json_dumps validator_down_env PNone = Inr ''null''"
    by (simp add: validator_down_env_def)
  have t3: "llm_invoke validator_down_env TranslatorPrompt
       (''Original Snowflake SQL:'' @ [newline] @ ''SELECT 1'' @ [newline, newline]
        @ ''AST:'' @ [newline] @ ''null'') = Inr ''SELECT 1''"
    by (simp add: validator_down_env_def)
  have v3: "llm_invoke validator_down_env ValidatorPrompt
       (''Original Snowflake SQL:'' @ [newline] @ ''SELECT 1'' @ [newline, newline]
        @ ''ANSI SQL:'' @ [newline] @ strip ''SELECT 1'') = Inl (Exception ''Rate limit reached.'')"
    by (simp add: validator_down_env_def)
  have h2: "\<exists>c1 dumped.
              llm_invoke translator_down_env ParserPrompt
                (''SQL to parse:'' @ [newline] @ ''SELECT 1'') = Inr c1
            \<and> json_dumps translator_down_env
                  (case json_loads translator_down_env c1 of
                     Inr v \<Rightarrow> v
                   | Inl x \<Rightarrow> PDict [(''error'', PStr (str x)), (''raw_response'', PStr c1)])
                = Inr dumped
            \<and> (llm_invoke translator_down_env TranslatorPrompt
                   (''Original Snowflake SQL:'' @ [newline] @ ''SELECT 1'' @ [newline, newline]
                    @ ''AST:'' @ [newline] @ dumped) = Inl (Exception ''Request timed out.'')
                \<or> (\<exists>c2.
                       llm_invoke translator_down_env TranslatorPrompt
                         (''Original Snowflake SQL:'' @ [newline] @ ''SELECT 1'' @ [newline, newline]
                          @ ''AST:'' @ [newline] @ dumped) = Inr c2
                     \<and> llm_invoke translator_down_env ValidatorPrompt
                         (''Original Snowflake SQL:'' @ [newline] @ ''SELECT 1'' @ [newline, newline]
                          @ ''ANSI SQL:'' @ [newline] @ strip c2) = Inl (Exception ''Request timed out.'')))"
    using p2 l2 d2 t2 by (intro exI [of _ "''null''"] conjI disjI1) simp_all
  have h3: "\<exists>c1 dumped.
              llm_invoke validator_down_env ParserPrompt
                (''SQL to parse:'' @ [newline] @ ''SELECT 1'') = Inr c1
            \<and> json_dumps validator_down_env
                  (case json_loads validator_down_env c1 of
                     Inr v \<Rightarrow> v
                   | Inl x \<Rightarrow> PDict [(''error'', PStr (str x)), (''raw_response'', PStr c1)])
                = Inr dumped
            \<and> (llm_invoke validator_down_env TranslatorPrompt
                   (''Original Snowflake SQL:'' @ [newline] @ ''SELECT 1'' @ [newline, newline]
                    @ ''AST:'' @ [newline] @ dumped) = Inl (Exception ''Rate limit reached.'')
                \<or> (\<exists>c2.
                       llm_invoke validator_down_env TranslatorPrompt
                         (''Original Snowflake SQL:'' @ [newline] @ ''SELECT 1'' @ [newline, newline]
                          @ ''AST:'' @ [newline] @ dumped) = Inr c2
                     \<and> llm_invoke validator_down_env ValidatorPrompt
                         (''Original Snowflake SQL:'' @ [newline] @ ''SELECT 1'' @ [newline, newline]
                          @ ''ANSI SQL:'' @ [newline] @ strip c2) = Inl (Exception ''Rate limit reached.'')))"
    using p3 l3 d3 t3 v3
    by (intro exI [of _ "''null''"] conjI disjI2 exI [of _ "''SELECT 1''"]) simp_all
  note r1 = failed_request_is_recorded [OF n disjI1, OF p1, of "[]"]
  note r2 = failed_request_is_recorded [OF n disjI2, OF h2, of "[]"]
  note r3 = failed_request_is_recorded [OF n disjI2, OF h3, of "[]"]
  have a1: "convert_snowflake_to_ansi failing_env ''SELECT 1'' = Inl (Exception ''Connection error.'')
   \<and> handle_user_question failing_env [] (Some ''SELECT 1'') =
       ([[(''question'', PStr ''SELECT 1''),
          (''answer'', PStr ''Error: Connection error.''),
          (''intermediate'', PDict [])]],
        [Chat_message ''user'' [St_text (PStr ''SELECT 1'')],
         Chat_message ''assistant'' [St_error (PStr ''Error: Connection error.'')]])"
    using r1 by simp
  have a2: "convert_snowflake_to_ansi translator_down_env ''SELECT 1''
       = Inl (Exception ''Request timed out.'')
   \<and> handle_user_question translator_down_env [] (Some ''SELECT 1'') =
       ([[(''question'', PStr ''SELECT 1''),
          (''answer'', PStr ''Error: Request timed out.''),
          (''intermediate'', PDict [])]],
        [Chat_message ''user'' [St_text (PStr ''SELECT 1'')],
         Chat_message ''assistant'' [St_error (PStr ''Error: Request timed out.'')]])"
    using r2 by simp
  have a3: "convert_snowflake_to_ansi validator_down_env ''SELECT 1''
       = Inl (Exception ''Rate limit reached.'')
   \<and> handle_user_question validator_down_env [] (Some ''SELECT 1'') =
       ([[(''question'', PStr ''SELECT 1''),
          (''answer'', PStr ''Error: Rate limit reached.''),
          (''intermediate'', PDict [])]],
        [Chat_message ''user'' [St_text (PStr ''SELECT 1'')],
         Chat_message ''assistant'' [St_error (PStr ''Error: Rate limit reached.'')]])"
    using r3 by simp
  from n p1 a1 p2 d2 t2 a2 t3 v3 a3 show ?thesis
    by (intro conjI) (elim conjE, assumption)+
qed

text \<open>
  C7 as stated fails: the entry recorded for a failed request has no key \<open>succeeded\<close>,
  and its answer is not absent but holds the error text.
\<close>

theorem failed_request_entry_counterexample:
  "convert_snowflake_to_ansi failing_env ''SELECT 1'' = Inl (Exception ''Connection error.'')
   \<and> fst (handle_user_question failing_env [] (Some ''SELECT 1'')) =
       [[(''question'', PStr ''SELECT 1''),
         (''answer'', PStr ''Error: Connection error.''),
         (''intermediate'', PDict [])]]
   \<and> map_of (last (fst (handle_user_question failing_env [] (Some ''SELECT 1'')))) ''succeeded''
       = None
   \<and> map_of (last (fst (handle_user_question failing_env [] (Some ''SELECT 1'')))) ''answer''
       = Some (PStr ''Error: Connection error.'')"
  by (simp add: handle_user_question_def stub_simps failing_env_def)

section \<open>Nothing but the query decides the result\<close>

text \<open>
  C8. With the service a fixed function, a run depends on the state it starts from only
  through the query: two states with the same query give the same run, whatever \<open>ast\<close>
  and \<open>final_sql\<close> they hold. So a conversion returns what a run from any state with that
  query would give. One submission adds the same entries and draws the same widgets
  whatever the history before it.
\<close>

theorem result_depends_on_input_query_only:
  assumes "input_query s = input_query s'"
  shows "run_from E START s [] = run_from E START s' []
       \<and> convert_snowflake_to_ansi E (input_query s) =
           (case app_invoke E s' of
              Inl e \<Rightarrow> Inl e
            | Inr t \<Rightarrow> Inr (final_sql t, [(''AST'', ast t)]))
       \<and> (\<exists>new shown. \<forall>history. handle_user_question E history uq = (history @ new, shown))"
proof -
  have same: "run_from E START a [] = run_from E START b []"
    if ab: "input_query a = input_query b" for a b
  proof (cases "parse_sql_to_ast E a")
    case (Inl e)
    moreover from Inl parse_reads [OF ab, of E] have "parse_sql_to_ast E b = Inl e"
      by simp
    ultimately show ?thesis
      by (simp add: run_from_START)
  next
    case (Inr w1)
    then obtain doc where w1: "w1 = [Set_ast doc]"
      using parse_writes by blast
    have pa: "parse_sql_to_ast E a = Inr [Set_ast doc]"
      using Inr w1 by simp
    have pb: "parse_sql_to_ast E b = Inr [Set_ast doc]"
      using pa parse_reads [OF ab, of E] by simp
    have tr: "translate_ast_to_ansi E (a\<lparr>ast := doc\<rparr>) = translate_ast_to_ansi E (b\<lparr>ast := doc\<rparr>)"
      using ab by (intro translate_reads) simp_all
    show ?thesis
    proof (cases "translate_ast_to_ansi E (a\<lparr>ast := doc\<rparr>)")
      case (Inl e)
      moreover from Inl tr have "translate_ast_to_ansi E (b\<lparr>ast := doc\<rparr>) = Inl e"
        by simp
      ultimately show ?thesis
        using pa pb by (simp add: run_from_START)
    next
      case (Inr w2)
      then obtain cand where w2: "w2 = [Set_final_sql cand]"
        using translate_writes by blast
      have eq: "a\<lparr>ast := doc, final_sql := cand\<rparr> = b\<lparr>ast := doc, final_sql := cand\<rparr>"
        using ab by (cases a, cases b) simp
      have eq': "a\<lparr>ast := doc, final_sql := cand, final_sql := out\<rparr>
                 = b\<lparr>ast := doc, final_sql := cand, final_sql := out\<rparr>" for out
        using ab by (cases a, cases b) simp
      have ta: "translate_ast_to_ansi E (a\<lparr>ast := doc\<rparr>) = Inr [Set_final_sql cand]"
        using Inr w2 by simp
      have tb: "translate_ast_to_ansi E (b\<lparr>ast := doc\<rparr>) = Inr [Set_final_sql cand]"
        using ta tr by simp
      from pa pb ta tb eq eq' show ?thesis
        by (simp add: run_from_START split: sum.splits)
    qed
  qed
  have r: "run_from E START s [] = run_from E START s' []"
    using assms by (rule same)
  have "run_from E START \<lparr>input_query = input_query s, ast = PNone, final_sql = ''''\<rparr> []
          = run_from E START s' []"
    using assms by (intro same) simp
  then have c: "convert_snowflake_to_ansi E (input_query s) =
           (case app_invoke E s' of
              Inl e \<Rightarrow> Inl e
            | Inr t \<Rightarrow> Inr (final_sql t, [(''AST'', ast t)]))"
    by (simp add: convert_run app_invoke_def split: sum.splits)
  have h: "\<exists>new shown. \<forall>history. handle_user_question E history uq = (history @ new, shown)"
  proof (cases uq)
    case None
    then have "\<forall>history. handle_user_question E history uq = (history @ [], [])"
      by (simp add: handle_user_question_def)
    then show ?thesis by blast
  next
    case (Some q)
    show ?thesis
    proof (cases "q = []")
      case True
      with Some have "\<forall>history. handle_user_question E history uq = (history @ [], [])"
        by (simp add: handle_user_question_def)
      then show ?thesis by blast
    next
      case False
      obtain new shown where "handle_user_question E [] uq = (new, shown)"
        by (cases "handle_user_question E [] uq")
      with Some False have "\<forall>history. handle_user_question E history uq = (history @ new, shown)"
        by (auto simp: handle_user_question_def Let_def split: sum.splits prod.splits)
      then show ?thesis by blast
    qed
  qed
  from r c h show ?thesis by blast
qed

text \<open>
  Two states with the same query and different leftovers.
\<close>

theorem result_depends_on_input_query_only_witness:
  "input_query \<lparr>input_query = ''SELECT 1'', ast = PNone, final_sql = ''''\<rparr>
     = input_query \<lparr>input_query = ''SELECT 1'', ast = PInt 7, final_sql = ''DROP TABLE t''\<rparr>
   \<and> run_from error_column_env START
       \<lparr>input_query = ''SELECT 1'', ast = PNone, final_sql = ''''\<rparr> []
     = run_from error_column_env START
         \<lparr>input_query = ''SELECT 1'', ast = PInt 7, final_sql = ''DROP TABLE t''\<rparr> []
   \<and> app_invoke error_column_env
       \<lparr>input_query = ''SELECT 1'', ast = PInt 7, final_sql = ''DROP TABLE t''\<rparr>
     = Inr \<lparr>input_query = ''SELECT 1'', ast = PNone, final_sql = ''SELECT ErrorCode FROM logs''\<rparr>
   \<and> convert_snowflake_to_ansi error_column_env ''SELECT 1''
     = Inr (''SELECT ErrorCode FROM logs'', [(''AST'', PNone)])"
proof -
  let ?a = "\<lparr>input_query = ''SELECT 1'', ast = PNone, final_sql = ''''\<rparr>"
  let ?b = "\<lparr>input_query = ''SELECT 1'', ast = PInt 7, final_sql = ''DROP TABLE t''\<rparr>"
  have h: "input_query ?a = input_query ?b"
    by simp
  have b: "app_invoke error_column_env ?b
     = Inr \<lparr>input_query = ''SELECT 1'', ast = PNone, final_sql = ''SELECT ErrorCode FROM logs''\<rparr>"
    by (simp add: stub_simps error_column_env_def)
  note t = result_depends_on_input_query_only [OF h, of error_column_env]
  from t b have "convert_snowflake_to_ansi error_column_env ''SELECT 1''
     = Inr (''SELECT ErrorCode FROM logs'', [(''AST'', PNone)])"
    by simp
  with h t b show ?thesis by blast
qed

section \<open>Blank requests\<close>

text \<open>
  C9. Take a query that is empty or all whitespace. If the service answers the parser
  call, \<open>json.dumps\<close> writes the value of stage 1 as text, and the service answers the
  translator call made with that text and the validator call made with the stripped
  translator answer, then the three agents run in that order and the conversion returns
  the validator's answer, stripped, with the value of stage 1 under \<open>AST\<close>. And if the
  conversion raises, the exception is one raised by one of those three calls or by
  \<open>json.dumps\<close>: nothing in the conversion rejects the query.
\<close>

theorem blank_request_is_converted:
  assumes "\<forall>c\<in>set q. isspace c"
  shows "(\<forall>c1 doc dumped c2 c3.
            llm_invoke E ParserPrompt (''SQL to parse:'' @ [newline] @ q) = Inr c1
          \<and> doc = (case json_loads E c1 of
                      Inr v \<Rightarrow> v
                    | Inl x \<Rightarrow> PDict [(''error'', PStr (str x)), (''raw_response'', PStr c1)])
          \<and> json_dumps E doc = Inr dumped
          \<and> llm_invoke E TranslatorPrompt
                (''Original Snowflake SQL:'' @ [newline] @ q @ [newline, newline]
                 @ ''AST:'' @ [newline] @ dumped) = Inr c2
          \<and> llm_invoke E ValidatorPrompt
                (''Original Snowflake SQL:'' @ [newline] @ q @ [newline, newline]
                 @ ''ANSI SQL:'' @ [newline] @ strip c2) = Inr c3
          \<longrightarrow>
            run_from E START \<lparr>input_query = q, ast = PNone, final_sql = ''''\<rparr> [] =
              Inr (\<lparr>input_query = q, ast = doc, final_sql = strip c3\<rparr>,
                   [(START, []), (ParserAgent, [Set_ast doc]),
                    (TranslationAgent, [Set_final_sql (strip c2)]),
                    (SyntaxValidatorAgent, [Set_final_sql (strip c3)])])
          \<and> convert_snowflake_to_ansi E q = Inr (strip c3, [(''AST'', doc)]))
       \<and> (\<forall>e. convert_snowflake_to_ansi E q = Inl e \<longrightarrow>
            llm_invoke E ParserPrompt (''SQL to parse:'' @ [newline] @ q) = Inl e
          \<or> (\<exists>c1 doc.
                llm_invoke E ParserPrompt (''SQL to parse:'' @ [newline] @ q) = Inr c1
              \<and> doc = (case json_loads E c1 of
                          Inr v \<Rightarrow> v
                        | Inl x \<Rightarrow> PDict [(''error'', PStr (str x)), (''raw_response'', PStr c1)])
              \<and> (json_dumps E doc = Inl e
                  \<or> (\<exists>dumped.
                        json_dumps E doc = Inr dumped
                      \<and> (llm_invoke E TranslatorPrompt
                             (''Original Snowflake SQL:'' @ [newline] @ q @ [newline, newline]
                              @ ''AST:'' @ [newline] @ dumped) = Inl e
                          \<or> (\<exists>c2.
                                llm_invoke E TranslatorPrompt
                                  (''Original Snowflake SQL:'' @ [newline] @ q @ [newline, newline]
                                   @ ''AST:'' @ [newline] @ dumped) = Inr c2
                              \<and> llm_invoke E ValidatorPrompt
                                  (''Original Snowflake SQL:'' @ [newline] @ q @ [newline, newline]
                                   @ ''ANSI SQL:'' @ [newline] @ strip c2) = Inl e))))))"
proof (intro conjI allI impI)
  fix c1 doc dumped c2 c3
  assume h: "llm_invoke E ParserPrompt (''SQL to parse:'' @ [newline] @ q) = Inr c1
          \<and> doc = (case json_loads E c1 of
                      Inr v \<Rightarrow> v
                    | Inl x \<Rightarrow> PDict [(''error'', PStr (str x)), (''raw_response'', PStr c1)])
          \<and> json_dumps E doc = Inr dumped
          \<and> llm_invoke E TranslatorPrompt
                (''Original Snowflake SQL:'' @ [newline] @ q @ [newline, newline]
                 @ ''AST:'' @ [newline] @ dumped) = Inr c2
          \<and> llm_invoke E ValidatorPrompt
                (''Original Snowflake SQL:'' @ [newline] @ q @ [newline, newline]
                 @ ''ANSI SQL:'' @ [newline] @ strip c2) = Inr c3"
  then show run: "run_from E START \<lparr>input_query = q, ast = PNone, final_sql = ''''\<rparr> [] =
              Inr (\<lparr>input_query = q, ast = doc, final_sql = strip c3\<rparr>,
                   [(START, []), (ParserAgent, [Set_ast doc]),
                    (TranslationAgent, [Set_final_sql (strip c2)]),
                    (SyntaxValidatorAgent, [Set_final_sql (strip c3)])])"
    by (auto simp: run_from_calls Let_def)
  then show "convert_snowflake_to_ansi E q = Inr (strip c3, [(''AST'', doc)])"
    by (simp add: convert_run)
next
  fix e
  assume "convert_snowflake_to_ansi E q = Inl e"
  then have run: "run_from E START \<lparr>input_query = q, ast = PNone, final_sql = ''''\<rparr> [] = Inl e"
    by (simp add: convert_run split: sum.splits prod.splits)
  let ?m1 = "''SQL to parse:'' @ [newline] @ q"
  let ?doc = "\<lambda>c1. case json_loads E c1 of
                      Inr v \<Rightarrow> v
                    | Inl x \<Rightarrow> PDict [(''error'', PStr (str x)), (''raw_response'', PStr c1)]"
  let ?m2 = "\<lambda>dumped. ''Original Snowflake SQL:'' @ [newline] @ q @ [newline, newline]
                        @ ''AST:'' @ [newline] @ dumped"
  let ?m3 = "\<lambda>c2. ''Original Snowflake SQL:'' @ [newline] @ q @ [newline, newline]
                    @ ''ANSI SQL:'' @ [newline] @ strip c2"
  have goal: "llm_invoke E ParserPrompt ?m1 = Inl e
          \<or> (\<exists>c1 doc.
                llm_invoke E ParserPrompt ?m1 = Inr c1
              \<and> doc = ?doc c1
              \<and> (json_dumps E doc = Inl e
                  \<or> (\<exists>dumped.
                        json_dumps E doc = Inr dumped
                      \<and> (llm_invoke E TranslatorPrompt (?m2 dumped) = Inl e
                          \<or> (\<exists>c2.
                                llm_invoke E TranslatorPrompt (?m2 dumped) = Inr c2
                              \<and> llm_invoke E ValidatorPrompt (?m3 c2) = Inl e)))))"
  proof (cases "llm_invoke E ParserPrompt ?m1")
    case (Inl e1)
    with run have "e1 = e"
      by (simp add: run_from_calls)
    with Inl show ?thesis by simp
  next
    case p: (Inr c1)
    show ?thesis
    proof (cases "json_dumps E (?doc c1)")
      case (Inl e2)
      with run p have "e2 = e"
        by (simp add: run_from_calls Let_def)
      with Inl p show ?thesis by blast
    next
      case d: (Inr dumped)
      show ?thesis
      proof (cases "llm_invoke E TranslatorPrompt (?m2 dumped)")
        case (Inl e3)
        with run p d have "e3 = e"
          by (simp add: run_from_calls Let_def)
        with Inl p d show ?thesis by blast
      next
        case t: (Inr c2)
        show ?thesis
        proof (cases "llm_invoke E ValidatorPrompt (?m3 c2)")
          case (Inl e4)
          with run p d t have "e4 = e"
            by (simp add: run_from_calls Let_def)
          with Inl p d t show ?thesis by blast
        next
          case (Inr c3)
          with run p d t have False
            by (simp add: run_from_calls Let_def)
          then show ?thesis ..
        qed
      qed
    qed
  qed
  then show "llm_invoke E ParserPrompt (''SQL to parse:'' @ [newline] @ q) = Inl e
          \<or> (\<exists>c1 doc.
                llm_invoke E ParserPrompt (''SQL to parse:'' @ [newline] @ q) = Inr c1
              \<and> doc = (case json_loads E c1 of
                          Inr v \<Rightarrow> v
                        | Inl x \<Rightarrow> PDict [(''error'', PStr (str x)), (''raw_response'', PStr c1)])
              \<and> (json_dumps E doc = Inl e
                  \<or> (\<exists>dumped.
                        json_dumps E doc = Inr dumped
                      \<and> (llm_invoke E TranslatorPrompt
                             (''Original Snowflake SQL:'' @ [newline] @ q @ [newline, newline]
                              @ ''AST:'' @ [newline] @ dumped) = Inl e
                          \<or> (\<exists>c2.
                                llm_invoke E TranslatorPrompt
                                  (''Original Snowflake SQL:'' @ [newline] @ q @ [newline, newline]
                                   @ ''AST:'' @ [newline] @ dumped) = Inr c2
                              \<and> llm_invoke E ValidatorPrompt
                                  (''Original Snowflake SQL:'' @ [newline] @ q @ [newline, newline]
                                   @ ''ANSI SQL:'' @ [newline] @ strip c2) = Inl e)))))"
    .
qed

text \<open>
  A query of a space and a line break, the empty query, the empty query with a service
  that cannot be reached, and the empty query with a first answer that \<open>json.dumps\<close>
  cannot write.
\<close>

theorem blank_request_is_converted_witness:
  "list_all isspace [CHR '' '', newline]
   \<and> llm_invoke error_column_env ParserPrompt (''SQL to parse:'' @ [newline] @ [CHR '' '', newline])
       = Inr ''null''
   \<and> json_loads error_column_env ''null'' = Inr PNone
   \<and> json_dumps error_column_env PNone = Inr ''null''
   \<and> llm_invoke error_column_env TranslatorPrompt
       (''Original Snowflake SQL:'' @ [newline] @ [CHR '' '', newline] @ [newline, newline]
        @ ''AST:'' @ [newline] @ ''null'') = Inr ''SELECT ErrorCode FROM logs''
   \<and> llm_invoke error_column_env ValidatorPrompt
       (''Original Snowflake SQL:'' @ [newline] @ [CHR '' '', newline] @ [newline, newline]
        @ ''ANSI SQL:'' @ [newline] @ strip ''SELECT ErrorCode FROM logs'')
       = Inr ''SELECT ErrorCode FROM logs''
   \<and> run_from error_column_env START
       \<lparr>input_query = [CHR '' '', newline], ast = PNone, final_sql = ''''\<rparr> [] =
         Inr (\<lparr>input_query = [CHR '' '', newline], ast = PNone,
               final_sql = ''SELECT ErrorCode FROM logs''\<rparr>,
              [(START, []), (ParserAgent, [Set_ast PNone]),
               (TranslationAgent, [Set_final_sql ''SELECT ErrorCode FROM logs'']),
               (SyntaxValidatorAgent, [Set_final_sql ''SELECT ErrorCode FROM logs''])])
   \<and> convert_snowflake_to_ansi error_column_env [CHR '' '', newline]
       = Inr (''SELECT ErrorCode FROM logs'', [(''AST'', PNone)])
   \<and> convert_snowflake_to_ansi error_column_env ''''
       = Inr (''SELECT ErrorCode FROM logs'', [(''AST'', PNone)])
   \<and> convert_snowflake_to_ansi failing_env '''' = Inl (Exception ''Connection error.'')
   \<and> llm_invoke failing_env ParserPrompt (''SQL to parse:'' @ [newline] @ '''')
       = Inl (Exception ''Connection error.'')
   \<and> convert_snowflake_to_ansi deep_env ''''
       = Inl (Exception ''maximum recursion depth exceeded'')
   \<and> llm_invoke deep_env ParserPrompt (''SQL to parse:'' @ [newline] @ '''') = Inr deep_text
   \<and> json_loads deep_env deep_text = Inr (nested 999)
   \<and> json_dumps deep_env (nested 999) = Inl (Exception ''maximum recursion depth exceeded'')"
proof -
  let ?b = "[CHR '' '', newline]"
  have e: "\<forall>c\<in>set ''''. isspace c"
    by simp
  have b: "\<forall>c\<in>set ?b. isspace c"
    by (simp add: isspace_def)
  have 0: "list_all isspace ?b"
    by (simp add: isspace_def)
  have st: "strip ''SELECT ErrorCode FROM logs'' = ''SELECT ErrorCode FROM logs''"
    by (simp add: strip_def isspace_def)
  have p: "llm_invoke error_column_env ParserPrompt (''SQL to parse:'' @ [newline] @ q) = Inr ''null''"
    for q
    by (simp add: error_column_env_def)
  have l: "json_loads error_column_env ''null'' = Inr PNone"
    by (simp add: error_column_env_def)
  have doc: "PNone = (case json_loads error_column_env ''null'' of
                        Inr v \<Rightarrow> v
                      | Inl x \<Rightarrow> PDict [(''error'', PStr (str x)),
                                         (''raw_response'', PStr ''null'')])"
    by (simp add: l)
  have d: "json_dumps error_column_env PNone = Inr ''null''"
    by (simp add: error_column_env_def)
  have t: "llm_invoke error_column_env TranslatorPrompt
             (''Original Snowflake SQL:'' @ [newline] @ q @ [newline, newline]
              @ ''AST:'' @ [newline] @ ''null'') = Inr ''SELECT ErrorCode FROM logs''" for q
    by (simp add: error_column_env_def)
  have v: "llm_invoke error_column_env ValidatorPrompt
             (''Original Snowflake SQL:'' @ [newline] @ q @ [newline, newline]
              @ ''ANSI SQL:'' @ [newline] @ strip ''SELECT ErrorCode FROM logs'')
           = Inr ''SELECT ErrorCode FROM logs''" for q
    by (simp add: error_column_env_def)
  note ok_b = blank_request_is_converted [OF b, of error_column_env, THEN conjunct1,
      THEN spec, THEN spec, THEN spec, THEN spec, THEN spec, THEN mp,
      OF conjI [OF p conjI [OF doc conjI [OF d conjI [OF t v]]]]]
  note ok_e = blank_request_is_converted [OF e, of error_column_env, THEN conjunct1,
      THEN spec, THEN spec, THEN spec, THEN spec, THEN spec, THEN mp,
      OF conjI [OF p conjI [OF doc conjI [OF d conjI [OF t v]]]]]
  have r1: "run_from error_column_env START
       \<lparr>input_query = ?b, ast = PNone, final_sql = ''''\<rparr> [] =
         Inr (\<lparr>input_query = ?b, ast = PNone, final_sql = ''SELECT ErrorCode FROM logs''\<rparr>,
              [(START, []), (ParserAgent, [Set_ast PNone]),
               (TranslationAgent, [Set_final_sql ''SELECT ErrorCode FROM logs'']),
               (SyntaxValidatorAgent, [Set_final_sql ''SELECT ErrorCode FROM logs''])])"
    using ok_b [THEN conjunct1] by (simp only: st)
  have r2: "convert_snowflake_to_ansi error_column_env ?b
       = Inr (''SELECT ErrorCode FROM logs'', [(''AST'', PNone)])"
    using ok_b [THEN conjunct2] by (simp only: st)
  have r3: "convert_snowflake_to_ansi error_column_env ''''
       = Inr (''SELECT ErrorCode FROM logs'', [(''AST'', PNone)])"
    using ok_e [THEN conjunct2] by (simp only: st)
  have f: "convert_snowflake_to_ansi failing_env '''' = Inl (Exception ''Connection error.'')"
    by (simp add: stub_simps failing_env_def)
  have fp: "llm_invoke failing_env ParserPrompt (''SQL to parse:'' @ [newline] @ '''')
       = Inl (Exception ''Connection error.'')"
    by (simp add: failing_env_def)
  have dp: "llm_invoke deep_env ParserPrompt (''SQL to parse:'' @ [newline] @ '''') = Inr deep_text"
    by (simp add: deep_env_def)
  have dl: "json_loads deep_env deep_text = Inr (nested 999)"
    by (simp add: deep_env_def)
  have dd: "json_dumps deep_env (nested 999) = Inl (Exception ''maximum recursion depth exceeded'')"
    by (simp add: deep_env_def)
  have dc: "convert_snowflake_to_ansi deep_env ''''
       = Inl (Exception ''maximum recursion depth exceeded'')"
    using dp dl dd by (simp add: convert_run run_from_calls)
  from 0 p [of ?b] l d t [of ?b] v [of ?b] r1 r2 r3 f fp dc dp dl dd show ?thesis
    by (intro conjI)
qed

section \<open>Replaying the history\<close>

text \<open>
  C10. An entry appended by the chat handler has the keys \<open>question\<close>, \<open>answer\<close>
  and \<open>intermediate\<close> and holds no boolean. When an entry with a string answer is
  replayed, the answer is drawn as an error exactly when \<open>Error\<close> occurs in it, and as
  code otherwise. With a validated statement that names a column \<open>ErrorCode\<close> the
  conversion succeeds and is drawn as code at first, and as an error on replay.
\<close>

theorem replay_marks_failure_by_substring:
  "(\<forall>history q. q \<noteq> [] \<longrightarrow>
      (\<exists>entry shown.
          handle_user_question E history (Some q) = (history @ [entry], shown)
        \<and> map fst entry = [''question'', ''answer'', ''intermediate'']
        \<and> (\<forall>v\<in>set (map snd entry). \<forall>b. v \<noteq> PBool b)))
   \<and> (\<forall>chat a. map_of chat ''answer'' = Some (PStr a) \<longrightarrow>
        (answer_widget chat = Some (St_error (PStr a)) \<longleftrightarrow> (\<exists>ps ss. a = ps @ ''Error'' @ ss))
      \<and> (answer_widget chat = Some (St_code (PStr a)) \<longleftrightarrow> \<not> (\<exists>ps ss. a = ps @ ''Error'' @ ss)))
   \<and> convert_snowflake_to_ansi error_column_env ''SELECT 1''
       = Inr (''SELECT ErrorCode FROM logs'', [(''AST'', PNone)])
   \<and> handle_user_question error_column_env [] (Some ''SELECT 1'') =
       ([[(''question'', PStr ''SELECT 1''),
          (''answer'', PStr ''SELECT ErrorCode FROM logs''),
          (''intermediate'', PDict [(''AST'', PNone)])]],
        [Chat_message ''user'' [St_text (PStr ''SELECT 1'')],
         Chat_message ''assistant''
           [St_code (PStr ''SELECT ErrorCode FROM logs''),
            St_expander ''View Intermediate Steps'' [St_subheader ''AST Tree'', St_json PNone]]])
   \<and> display_previous_messages (fst (handle_user_question error_column_env [] (Some ''SELECT 1''))) =
       Some [Chat_message ''user'' [St_text (PStr ''SELECT 1'')],
             Chat_message ''assistant''
               [St_error (PStr ''SELECT ErrorCode FROM logs''),
                St_expander ''View Intermediate Steps''
                  [St_subheader ''AST Tree'', St_json PNone]]]"
proof -
  have 1: "\<forall>history q. q \<noteq> [] \<longrightarrow>
      (\<exists>entry shown.
          handle_user_question E history (Some q) = (history @ [entry], shown)
        \<and> map fst entry = [''question'', ''answer'', ''intermediate'']
        \<and> (\<forall>v\<in>set (map snd entry). \<forall>b. v \<noteq> PBool b))"
    by (auto simp: handle_user_question_def Let_def split: sum.splits prod.splits)
  have 2: "\<forall>chat a. map_of chat ''answer'' = Some (PStr a) \<longrightarrow>
        (answer_widget chat = Some (St_error (PStr a)) \<longleftrightarrow> (\<exists>ps ss. a = ps @ ''Error'' @ ss))
      \<and> (answer_widget chat = Some (St_code (PStr a)) \<longleftrightarrow> \<not> (\<exists>ps ss. a = ps @ ''Error'' @ ss))"
  proof -
    have "\<forall>chat a. map_of chat ''answer'' = Some (PStr a) \<longrightarrow>
        (answer_widget chat = Some (St_error (PStr a)) \<longleftrightarrow> str_in ''Error'' a)
      \<and> (answer_widget chat = Some (St_code (PStr a)) \<longleftrightarrow> \<not> str_in ''Error'' a)"
      by (simp add: answer_widget_def)
    then show ?thesis
      unfolding str_in_iff .
  qed
  have 3: "convert_snowflake_to_ansi error_column_env ''SELECT 1''
       = Inr (''SELECT ErrorCode FROM logs'', [(''AST'', PNone)])"
    by (simp add: stub_simps error_column_env_def)
  have 4: "handle_user_question error_column_env [] (Some ''SELECT 1'') =
       ([[(''question'', PStr ''SELECT 1''),
          (''answer'', PStr ''SELECT ErrorCode FROM logs''),
          (''intermediate'', PDict [(''AST'', PNone)])]],
        [Chat_message ''user'' [St_text (PStr ''SELECT 1'')],
         Chat_message ''assistant''
           [St_code (PStr ''SELECT ErrorCode FROM logs''),
            St_expander ''View Intermediate Steps'' [St_subheader ''AST Tree'', St_json PNone]]])"
    by (simp add: handle_user_question_def 3)
  have 5: "display_previous_messages (fst (handle_user_question error_column_env [] (Some ''SELECT 1''))) =
       Some [Chat_message ''user'' [St_text (PStr ''SELECT 1'')],
             Chat_message ''assistant''
               [St_error (PStr ''SELECT ErrorCode FROM logs''),
                St_expander ''View Intermediate Steps''
                  [St_subheader ''AST Tree'', St_json PNone]]]"
    by (simp add: 4 display_chat_def answer_widget_def intermediate_widgets_def)
  from 1 2 3 4 5 show ?thesis by blast
qed

text \<open>
  An entry after a failed request, and the replay of an answer containing \<open>Error\<close>.
\<close>

theorem replay_marks_failure_by_substring_witness:
  "''SELECT 1'' \<noteq> []
   \<and> (\<exists>entry shown.
         handle_user_question failing_env [] (Some ''SELECT 1'') = ([] @ [entry], shown)
       \<and> map fst entry = [''question'', ''answer'', ''intermediate''])
   \<and> map_of [(''question'', PStr ''q''), (''answer'', PStr ''No Error here''), (''intermediate'', PDict [])]
        ''answer'' = Some (PStr ''No Error here'')
   \<and> ''No Error here'' = ''No '' @ ''Error'' @ '' here''
   \<and> answer_widget
        [(''question'', PStr ''q''), (''answer'', PStr ''No Error here''), (''intermediate'', PDict [])]
       = Some (St_error (PStr ''No Error here''))"
proof -
  let ?chat = "[(''question'', PStr ''q''), (''answer'', PStr ''No Error here''),
                (''intermediate'', PDict [])]"
  note t = replay_marks_failure_by_substring [of failing_env]
  note t1 = t [THEN conjunct1]
  note t2 = t [THEN conjunct2, THEN conjunct1]
  have n: "''SELECT 1'' \<noteq> []"
    by simp
  have m: "map_of ?chat ''answer'' = Some (PStr ''No Error here'')"
    by simp
  have s: "''No Error here'' = ''No '' @ ''Error'' @ '' here''"
    by simp
  have "\<exists>entry shown.
         handle_user_question failing_env [] (Some ''SELECT 1'') = ([] @ [entry], shown)
       \<and> map fst entry = [''question'', ''answer'', ''intermediate'']
       \<and> (\<forall>v\<in>set (map snd entry). \<forall>b. v \<noteq> PBool b)"
    using t1 [THEN spec, THEN spec, THEN mp, OF n] .
  then obtain entry shown where
    "handle_user_question failing_env [] (Some ''SELECT 1'') = ([] @ [entry], shown)"
    and "map fst entry = [''question'', ''answer'', ''intermediate'']"
    by (elim exE conjE)
  then have a: "\<exists>entry shown.
         handle_user_question failing_env [] (Some ''SELECT 1'') = ([] @ [entry], shown)
       \<and> map fst entry = [''question'', ''answer'', ''intermediate'']"
    by (intro exI conjI)
  have "(answer_widget ?chat = Some (St_error (PStr ''No Error here''))
           \<longleftrightarrow> (\<exists>ps ss. ''No Error here'' = ps @ ''Error'' @ ss))
        \<and> (answer_widget ?chat = Some (St_code (PStr ''No Error here''))
           \<longleftrightarrow> \<not> (\<exists>ps ss. ''No Error here'' = ps @ ''Error'' @ ss))"
    using t2 [THEN spec, THEN spec, THEN mp, OF m] .
  then have i: "answer_widget ?chat = Some (St_error (PStr ''No Error here''))
           \<longleftrightarrow> (\<exists>ps ss. ''No Error here'' = ps @ ''Error'' @ ss)"
    by (rule conjunct1)
  have "\<exists>ps ss. ''No Error here'' = ps @ ''Error'' @ ss"
    using s by (intro exI)
  with i have w: "answer_widget ?chat = Some (St_error (PStr ''No Error here''))"
    by (rule iffD2)
  from n a m s w show ?thesis
    by (intro conjI)
qed

end
